theory Spec2Isabelle
  imports Main
begin

section \<open>Python values used by the SDK\<close>

text \<open>
  Exceptions are values. Every \<^verbatim>\<open>raise\<close> of the modelled code is a branch that
  returns \<open>Inl\<close> of one of these; a normal return is \<open>Inr\<close>.
  \<open>RemoteError\<close> stands for whatever the remote service reports on a failed request
  or long-running operation.
\<close>

datatype error =
    ValueError string
  | KeyError string
  | NameError string
  | AttributeError string
  | FileNotFoundError string
  | RemoteError string

text \<open>
  Strings are byte strings in UTF-8. \<^verbatim>\<open>str.lower()\<close> is Unicode-aware and its case
  tables are not modelled: the resolver takes the lowercasing as its parameter
  \<open>str_lower\<close>, and what is proved of it is proved for every such function. On ASCII
  strings \<^verbatim>\<open>str.lower()\<close> is \<open>ascii_lower\<close>: the letters \<^verbatim>\<open>A\<close>..\<^verbatim>\<open>Z\<close> (codes 65..90)
  move to \<^verbatim>\<open>a\<close>..\<^verbatim>\<open>z\<close>, every other byte stays. It is the lowercasing of the concrete
  runs below, whose strings are ASCII.
\<close>

definition ascii_lower_char :: "char \<Rightarrow> char" where
  "ascii_lower_char c =
     (let n = (of_char c :: nat) in if 65 \<le> n \<and> n \<le> 90 then char_of (n + 32) else c)"

definition ascii_lower :: "string \<Rightarrow> string" where
  "ascii_lower s = map ascii_lower_char s"

text \<open>\<^verbatim>\<open>s.split(sep, 1)[0]\<close>: the part of \<open>s\<close> before the first \<open>sep\<close>, all of \<open>s\<close> when
  there is none.\<close>

definition split_first :: "char \<Rightarrow> string \<Rightarrow> string" where
  "split_first sep s = takeWhile (\<lambda>c. c \<noteq> sep) s"

text \<open>\<^verbatim>\<open>sep.join(xs)\<close>\<close>

fun join :: "string \<Rightarrow> string list \<Rightarrow> string" where
  "join sep [] = []"
| "join sep [x] = x"
| "join sep (x # y # ys) = x @ sep @ join sep (y # ys)"

text \<open>\<^verbatim>\<open>a or b\<close> for an optional string \<open>a\<close>: \<^verbatim>\<open>None\<close> and the empty string are falsy.\<close>

definition py_or :: "string option \<Rightarrow> string \<Rightarrow> string" where
  "py_or a b = (case a of None \<Rightarrow> b | Some x \<Rightarrow> if x = [] then b else x)"

text \<open>
  A \<^verbatim>\<open>dict\<close> with string keys is an association list in insertion order:
  \<^verbatim>\<open>d.get(k)\<close> is \<open>dict_get\<close>, \<^verbatim>\<open>d.keys()\<close> is \<open>dict_keys\<close>.
\<close>

type_synonym 'v dict = "(string \<times> 'v) list"

definition dict_get :: "'v dict \<Rightarrow> string \<Rightarrow> 'v option" where
  "dict_get d k = map_of d k"

definition dict_keys :: "'v dict \<Rightarrow> string list" where
  "dict_keys d = map fst d"

text \<open>
  \<^verbatim>\<open>not d.get(k)\<close>: true when the key is absent (\<^verbatim>\<open>None\<close>) and when the value
  stored is an empty dict or an empty string. Both are lists here.
\<close>

definition falsy :: "'a list option \<Rightarrow> bool" where
  "falsy v = (case v of None \<Rightarrow> True | Some x \<Rightarrow> x = [])"

section \<open>Container URI resolver (helpers/container\_uri\_builders.py)\<close>

text \<open>
  The table \<^verbatim>\<open>prediction._SERVING_CONTAINER_URI_MAP\<close>, the documentation URL
  \<^verbatim>\<open>prediction._SERVING_CONTAINER_DOCUMENTATION_URL\<close> and the ambient
  \<^verbatim>\<open>initializer.global_config.location\<close> are defined in modules that are not part
  of this development; they are the parameters \<open>URI_MAP\<close>, \<open>DOC_URL\<close> and \<open>location\<close>.
  The table is \<open>region \<rightarrow> framework \<rightarrow> accelerator \<rightarrow> version \<rightarrow> URI\<close>.
\<close>

type_synonym uri_map = "string dict dict dict dict"

definition DOCS_URI_MESSAGE :: "string \<Rightarrow> string" where
  "DOCS_URI_MESSAGE DOC_URL =
     ''See '' @ DOC_URL @ '' for complete list of supported containers''"

definition region_message :: "uri_map \<Rightarrow> string \<Rightarrow> string \<Rightarrow> string" where
  "region_message URI_MAP DOC_URL region =
     ''Unsupported container region `'' @ region @ ''`, supported regions are ''
     @ join '', '' (dict_keys URI_MAP) @ ''. '' @ DOCS_URI_MESSAGE DOC_URL"

definition framework_message :: "string dict dict dict \<Rightarrow> string \<Rightarrow> string \<Rightarrow> string" where
  "framework_message frameworks DOC_URL framework =
     ''No containers found for framework `'' @ framework @ ''`. Supported frameworks are ''
     @ join '', '' (dict_keys frameworks) @ '' '' @ DOCS_URI_MESSAGE DOC_URL"

definition accelerator_message ::
  "string dict dict \<Rightarrow> string \<Rightarrow> string \<Rightarrow> string \<Rightarrow> string" where
  "accelerator_message accelerators DOC_URL framework accelerator =
     framework @ '' containers do not support `'' @ accelerator
     @ ''` accelerator. Supported accelerators are ''
     @ join '', '' (dict_keys accelerators) @ ''. '' @ DOCS_URI_MESSAGE DOC_URL"

definition version_message ::
  "string dict \<Rightarrow> string \<Rightarrow> string \<Rightarrow> string \<Rightarrow> string \<Rightarrow> string" where
  "version_message versions DOC_URL framework framework_version accelerator =
     ''No serving container for `'' @ framework @ ''` version `'' @ framework_version
     @ ''` with accelerator `'' @ accelerator @ ''` found. Supported versions include ''
     @ join '', '' (dict_keys versions) @ ''. '' @ DOCS_URI_MESSAGE DOC_URL"

text \<open>
  The function, with the arguments in the order of the source after the parameters:
  \<open>framework\<close>, \<open>framework_version\<close>, \<open>region\<close> (optional), \<open>accelerator\<close>. Lines 77
  to 79 normalise, \<^verbatim>\<open>framework.lower()\<close> being \<open>str_lower framework\<close>; lines 81 to 109 walk the table. Each \<^verbatim>\<open>if not m.get(k): raise\<close> is
  a \<open>falsy\<close> test; the subscript \<^verbatim>\<open>m[k]\<close> that follows it raises \<^verbatim>\<open>KeyError\<close>
  on an absent key, as Python does.
\<close>

definition get_prebuilt_prediction_container_uri ::
  "(string \<Rightarrow> string) \<Rightarrow> uri_map \<Rightarrow> string \<Rightarrow> string \<Rightarrow> string \<Rightarrow> string
     \<Rightarrow> string option \<Rightarrow> string \<Rightarrow> error + string" where
  "get_prebuilt_prediction_container_uri str_lower URI_MAP DOC_URL location
       framework framework_version region accelerator =
     (let region1 = py_or region location;
          region2 = split_first (CHR ''-'') region1;
          framework1 = str_lower framework
      in
        if falsy (dict_get URI_MAP region2)
        then Inl (ValueError (region_message URI_MAP DOC_URL region2))
        else
          (case dict_get URI_MAP region2 of
             None \<Rightarrow> Inl (KeyError region2)
           | Some frameworks \<Rightarrow>
             if falsy (dict_get frameworks framework1)
             then Inl (ValueError (framework_message frameworks DOC_URL framework1))
             else
               (case dict_get frameworks framework1 of
                  None \<Rightarrow> Inl (KeyError framework1)
                | Some accelerators \<Rightarrow>
                  if falsy (dict_get accelerators accelerator)
                  then Inl (ValueError
                         (accelerator_message accelerators DOC_URL framework1 accelerator))
                  else
                    (case dict_get accelerators accelerator of
                       None \<Rightarrow> Inl (KeyError accelerator)
                     | Some versions \<Rightarrow>
                       (case dict_get versions framework_version of
                          None \<Rightarrow>
                            Inl (ValueError
                              (version_message versions DOC_URL framework1 framework_version
                                 accelerator))
                        | Some final_uri \<Rightarrow>
                          if final_uri = []
                          then Inl (ValueError
                                 (version_message versions DOC_URL framework1 framework_version
                                    accelerator))
                          else Inr final_uri)))))"

text \<open>
  Modelled from the spec: the table \<^verbatim>\<open>prediction._SERVING_CONTAINER_URI_MAP\<close> is a
  constant of a module that is not part of this development. The spec describes it as
  "a static, read-only nested mapping \<open>region \<rightarrow> framework \<rightarrow> accelerator \<rightarrow> version \<rightarrow> URI\<close>"
  that the function walks after it has normalised "\<open>region\<close> to its first
  hyphen-delimited segment" and "\<open>framework\<close> to lowercase"; the docstring of the
  function has a region start with \<^verbatim>\<open>us\<close>, \<^verbatim>\<open>asia\<close> or \<^verbatim>\<open>europe\<close>. The table stays a
  parameter; the two predicates state what the function relies on. \<open>keys_normalised\<close>:
  every region key is a non-empty string without a hyphen and every framework key is
  its own lowercase, the form lines 77 to 79 look up. \<open>mappings_nonempty\<close>: no region,
  framework or accelerator key holds an empty mapping.
\<close>

definition keys_normalised :: "(string \<Rightarrow> string) \<Rightarrow> uri_map \<Rightarrow> bool" where
  "keys_normalised str_lower URI_MAP =
     list_all
       (\<lambda>(region, frameworks).
          region \<noteq> [] \<and> CHR ''-'' \<notin> set region
          \<and> list_all (\<lambda>(framework, accelerators). str_lower framework = framework) frameworks)
       URI_MAP"

definition mappings_nonempty :: "uri_map \<Rightarrow> bool" where
  "mappings_nonempty URI_MAP =
     list_all
       (\<lambda>(region, frameworks).
          frameworks \<noteq> []
          \<and> list_all
              (\<lambda>(framework, accelerators).
                 accelerators \<noteq> []
                 \<and> list_all (\<lambda>(accelerator, versions). versions \<noteq> []) accelerators)
              frameworks)
       URI_MAP"

section \<open>Dataset resource controller (datasets/dataset.py)\<close>

subsection \<open>Messages, requests and the remote gateway\<close>

text \<open>
  \<open>gca_dataset\<close> is the message \<^verbatim>\<open>gca_dataset.Dataset\<close>; its \<open>metadata\<close>, the
  credentials and an import configuration are opaque to this module, which only hands
  them on, and are strings here.
\<close>

type_synonym credentials = string
type_synonym import_data_config = string

record gca_dataset =
  gca_name :: string
  gca_display_name :: string
  gca_metadata_schema_uri :: string
  gca_metadata :: string

record gcs_destination =
  output_uri_prefix :: string

record export_data_config =
  gcs_destination :: gcs_destination

record export_data_response =
  exported_files :: "string list"

text \<open>
  A long-running operation is identified with its eventual outcome: \<^verbatim>\<open>lro.result()\<close>
  blocks until the operation has completed and then returns the payload or raises the
  remote failure.
\<close>

type_synonym 'a operation = "error + 'a"

text \<open>
  The client \<^verbatim>\<open>DatasetServiceClient\<close> is generated code that is not part of this
  development: a parameter, one field per remote call the controller makes. A call either fails at once
  or hands back an operation (\<^verbatim>\<open>get_dataset\<close>: the resource).
\<close>

record api_client =
  client_create_dataset ::
    "string \<Rightarrow> gca_dataset \<Rightarrow> (string \<times> string) list \<Rightarrow> error + gca_dataset operation"
  client_get_dataset :: "string \<Rightarrow> error + gca_dataset"
  client_import_data :: "string \<Rightarrow> import_data_config list \<Rightarrow> error + unit operation"
  client_export_data ::
    "string \<Rightarrow> export_data_config \<Rightarrow> error + export_data_response operation"

text \<open>
  What the remote gateway sees, in order: each request as it is issued, and the moment a
  \<^verbatim>\<open>result()\<close> unblocks because the operation has completed. Every function that
  talks to the gateway takes the log so far and returns it extended.
\<close>

datatype operation_kind = CreateOperation | ImportOperation | ExportOperation

datatype event =
    CreateDatasetRequest string gca_dataset "(string \<times> string) list"
  | GetDatasetRequest string
  | ImportDataRequest string "import_data_config list"
  | ExportDataRequest string export_data_config
  | OperationCompleted operation_kind

definition result :: "operation_kind \<Rightarrow> 'a operation \<Rightarrow> event list \<Rightarrow> (error + 'a) \<times> event list" where
  "result kind lro s = (lro, s @ [OperationCompleted kind])"

subsection \<open>Datasources and the ambient configuration\<close>

text \<open>
  The classes \<^verbatim>\<open>_datasources.Datasource\<close> and \<^verbatim>\<open>_datasources.DatasourceImportable\<close>
  are declared in a module that is not part of this development. The controller reads
  \<^verbatim>\<open>dataset_metadata\<close> of either, \<^verbatim>\<open>import_data_config\<close> of the second, and tells them apart with
  \<^verbatim>\<open>isinstance\<close>.
\<close>

datatype datasource =
    Datasource (dataset_metadata: string)
  | DatasourceImportable (dataset_metadata: string) (import_data_config: import_data_config)

definition isinstance_DatasourceImportable :: "datasource \<Rightarrow> bool" where
  "isinstance_DatasourceImportable d =
     (case d of Datasource _ \<Rightarrow> False | DatasourceImportable _ _ \<Rightarrow> True)"

text \<open>
  The helpers \<^verbatim>\<open>utils.validate_display_name\<close>, \<^verbatim>\<open>_datasources.create_datasource\<close>
  and \<^verbatim>\<open>initializer.global_config\<close> live in modules that are not part of this
  development; \<open>create\<close> takes them as the fields of one record. The class attributes a handle class declares
  (\<^verbatim>\<open>__name__\<close>, \<^verbatim>\<open>_supported_metadata_schema_uris\<close>) are a record too.
\<close>

record environment =
  utils_validate_display_name :: "string \<Rightarrow> error + unit"
  datasources_create_datasource ::
    "string \<Rightarrow> string option \<Rightarrow> string list option \<Rightarrow> string option
       \<Rightarrow> (string \<times> string) list option \<Rightarrow> error + datasource"
  global_config_project :: string
  global_config_location :: string
  global_config_credentials :: "credentials option"
  global_config_common_location_path :: "string option \<Rightarrow> string option \<Rightarrow> string"

record dataset_class =
  class_name :: string
  supported_metadata_schema_uris :: "string list option"

text \<open>
  Modelled from the spec: \<^verbatim>\<open>utils.validate_display_name\<close> is not part of this
  development. The spec has \<open>create\<close> validate that the display name "is non-empty
  and within length/charset limits", a malformed name being an invalid argument; the docstring of
  \<open>create\<close> allows up to 128 characters and any of them.
\<close>

definition validate_display_name :: "string \<Rightarrow> error + unit" where
  "validate_display_name display_name =
     (if display_name = [] \<or> 128 < length display_name
      then Inl (ValueError ''Display name must be non-empty and at most 128 characters long.'')
      else Inr ())"

text \<open>
  Modelled from the spec: \<^verbatim>\<open>_datasources.create_datasource\<close> is not part of this
  development. The spec says that building the descriptor "fails with an
  invalid-argument condition if source fields are contradictory or a required URI is missing", and that
  contradictory means "both a Cloud Storage source and a warehouse-table source set".
  Which URI is required for which dataset type, and which descriptor is built when
  nothing fails, the spec leaves open: they are the parameters \<open>required_uri_missing\<close>
  and \<open>build\<close>.
\<close>

definition contradictory :: "string list option \<Rightarrow> string option \<Rightarrow> bool" where
  "contradictory gcs_source bq_source = (gcs_source \<noteq> None \<and> bq_source \<noteq> None)"

definition create_datasource ::
  "(string \<Rightarrow> string option \<Rightarrow> string list option \<Rightarrow> string option \<Rightarrow> bool)
   \<Rightarrow> (string \<Rightarrow> string option \<Rightarrow> string list option \<Rightarrow> string option
        \<Rightarrow> (string \<times> string) list option \<Rightarrow> datasource)
   \<Rightarrow> string \<Rightarrow> string option \<Rightarrow> string list option \<Rightarrow> string option
   \<Rightarrow> (string \<times> string) list option \<Rightarrow> error + datasource" where
  "create_datasource required_uri_missing build
       metadata_schema_uri import_schema_uri gcs_source bq_source data_item_labels =
     (if contradictory gcs_source bq_source
      then Inl (ValueError ''Only one of gcs_source or bq_source can be set.'')
      else if required_uri_missing metadata_schema_uri import_schema_uri gcs_source bq_source
      then Inl (ValueError ''A required source or schema URI is missing.'')
      else Inr (build metadata_schema_uri import_schema_uri gcs_source bq_source
                  data_item_labels))"

subsection \<open>The handle\<close>

text \<open>
  The object behind a handle: the cached remote resource and the context the base class
  constructor records.
\<close>

record dataset =
  gca_resource :: gca_dataset
  dataset_project :: "string option"
  dataset_location :: "string option"
  dataset_credentials :: "credentials option"

definition resource_name :: "dataset \<Rightarrow> string" where
  "resource_name self = gca_name (gca_resource self)"

definition metadata_schema_uri_of :: "dataset \<Rightarrow> string" where
  "metadata_schema_uri_of self = gca_metadata_schema_uri (gca_resource self)"

text \<open>
  Source lines 80 to 93. The attribute is \<^verbatim>\<open>Optional[Tuple[str]]\<close>: \<^verbatim>\<open>None\<close> and the
  empty tuple are falsy.
\<close>

definition u_validate_metadata_schema_uri :: "dataset_class \<Rightarrow> dataset \<Rightarrow> error + unit" where
  "u_validate_metadata_schema_uri cls self =
     (case supported_metadata_schema_uris cls of
        None \<Rightarrow> Inr ()
      | Some uris \<Rightarrow>
        if uris \<noteq> [] \<and> metadata_schema_uri_of self \<notin> set uris
        then Inl (ValueError
               (class_name cls @ '' class can not be used to retrieve dataset resource ''
                @ resource_name self @ '', check the dataset type''))
        else Inr ())"

text \<open>
  Modelled from the spec: \<^verbatim>\<open>_get_gca_resource\<close> belongs to the base class, which is not
  part of this development. The spec has construction fetch the remote metadata with the
  get-dataset call of the gateway; the name is passed on as given.
\<close>

definition u_get_gca_resource ::
  "api_client \<Rightarrow> string \<Rightarrow> event list \<Rightarrow> (error + gca_dataset) \<times> event list" where
  "u_get_gca_resource api_client resource_name_arg s =
     (client_get_dataset api_client resource_name_arg, s @ [GetDatasetRequest resource_name_arg])"

text \<open>\<^verbatim>\<open>Dataset.__init__\<close>, source lines 71 to 73.\<close>

definition Dataset_init ::
  "dataset_class \<Rightarrow> api_client \<Rightarrow> string \<Rightarrow> string option \<Rightarrow> string option
     \<Rightarrow> credentials option \<Rightarrow> event list \<Rightarrow> (error + dataset) \<times> event list" where
  "Dataset_init cls api_client dataset_name project location credentials s =
     (case u_get_gca_resource api_client dataset_name s of
        (Inl e, s1) \<Rightarrow> (Inl e, s1)
      | (Inr fetched, s1) \<Rightarrow>
        (let self = \<lparr>gca_resource = fetched, dataset_project = project,
                      dataset_location = location, dataset_credentials = credentials\<rparr>
         in case u_validate_metadata_schema_uri cls self of
              Inl e \<Rightarrow> (Inl e, s1)
            | Inr _ \<Rightarrow> (Inr self, s1)))"

text \<open>
  A handle under asynchronous creation follows the state machine of the spec,
  \<open>PENDING \<rightarrow> {COMPLETE, FAILED}\<close>. A pending handle holds the deferred body; a handle
  that was fetched or created synchronously is complete from the start.
\<close>

type_synonym task = "event list \<Rightarrow> (error + dataset) \<times> event list"

datatype handle = PENDING task | COMPLETE dataset | FAILED error

text \<open>
  Modelled from the spec: the decorator \<^verbatim>\<open>base.optional_sync\<close> is not part of this
  development. The spec: "If \<^verbatim>\<open>sync\<close> is true, blocks until both operations
  complete and returns a fully-populated Resource Handle; if false, returns a placeholder immediately and
  completes population in the background".
\<close>

definition optional_sync :: "bool \<Rightarrow> task \<Rightarrow> event list \<Rightarrow> (error + handle) \<times> event list" where
  "optional_sync sync body s =
     (if sync
      then (case body s of
              (Inl e, s1) \<Rightarrow> (Inl e, s1)
            | (Inr obj, s1) \<Rightarrow> (Inr (COMPLETE obj), s1))
      else (Inr (PENDING body), s))"

text \<open>
  Modelled from the spec: \<^verbatim>\<open>wait\<close> belongs to the base class, which is not part of
  this development. The spec: an access "while \<open>PENDING\<close> blocks until the background
  operation lands in \<open>COMPLETE\<close> (returns the handle) or \<open>FAILED\<close> (propagates the
  captured remote error to the caller at first access)". The background body runs to its
  end, its requests entering the log, before \<open>wait\<close> returns; the object returned is the
  one the handle now stands for.
\<close>

definition wait :: "handle \<Rightarrow> event list \<Rightarrow> (error + dataset) \<times> handle \<times> event list" where
  "wait self s =
     (case self of
        COMPLETE obj \<Rightarrow> (Inr obj, COMPLETE obj, s)
      | FAILED e \<Rightarrow> (Inl e, FAILED e, s)
      | PENDING body \<Rightarrow>
        (case body s of
           (Inl e, s1) \<Rightarrow> (Inl e, FAILED e, s1)
         | (Inr obj, s1) \<Rightarrow> (Inr obj, COMPLETE obj, s1)))"

subsection \<open>Creation and import\<close>

text \<open>\<^verbatim>\<open>Dataset._create\<close>, source lines 330 to 338. Isabelle names cannot begin with an
  underscore; \<open>u_\<close> stands for it.\<close>

definition u_create ::
  "api_client \<Rightarrow> string \<Rightarrow> string \<Rightarrow> string \<Rightarrow> datasource \<Rightarrow> (string \<times> string) list
     \<Rightarrow> event list \<Rightarrow> (error + gca_dataset operation) \<times> event list" where
  "u_create api_client parent display_name metadata_schema_uri datasource request_metadata s =
     (let gapic_dataset = \<lparr>gca_name = [], gca_display_name = display_name,
                            gca_metadata_schema_uri = metadata_schema_uri,
                            gca_metadata = dataset_metadata datasource\<rparr>
      in (client_create_dataset api_client parent gapic_dataset request_metadata,
          s @ [CreateDatasetRequest parent gapic_dataset request_metadata]))"

text \<open>\<^verbatim>\<open>Dataset._import\<close>, source lines 353 to 355. Reading \<^verbatim>\<open>import_data_config\<close>
  of a datasource that has none raises.\<close>

definition u_import ::
  "api_client \<Rightarrow> dataset \<Rightarrow> datasource \<Rightarrow> event list
     \<Rightarrow> (error + unit operation) \<times> event list" where
  "u_import api_client self datasource s =
     (case datasource of
        Datasource _ \<Rightarrow> (Inl (AttributeError ''import_data_config''), s)
      | DatasourceImportable _ config \<Rightarrow>
        (client_import_data api_client (resource_name self) [config],
         s @ [ImportDataRequest (resource_name self) [config]]))"

text \<open>The body of \<^verbatim>\<open>Dataset._create_and_import\<close>, source lines 265 to 288.\<close>

definition u_create_and_import_body ::
  "dataset_class \<Rightarrow> api_client \<Rightarrow> string \<Rightarrow> string \<Rightarrow> string \<Rightarrow> datasource \<Rightarrow> string
     \<Rightarrow> string \<Rightarrow> credentials option \<Rightarrow> (string \<times> string) list \<Rightarrow> task" where
  "u_create_and_import_body cls api_client parent display_name metadata_schema_uri datasource
       project location credentials request_metadata s =
     (case u_create api_client parent display_name metadata_schema_uri datasource
             request_metadata s of
        (Inl e, s1) \<Rightarrow> (Inl e, s1)
      | (Inr create_dataset_lro, s1) \<Rightarrow>
        (case result CreateOperation create_dataset_lro s1 of
           (Inl e, s2) \<Rightarrow> (Inl e, s2)
         | (Inr created_dataset, s2) \<Rightarrow>
           (case Dataset_init cls api_client (gca_name created_dataset) (Some project)
                   (Some location) credentials s2 of
              (Inl e, s3) \<Rightarrow> (Inl e, s3)
            | (Inr dataset_obj, s3) \<Rightarrow>
              if isinstance_DatasourceImportable datasource
              then
                (case u_import api_client dataset_obj datasource s3 of
                   (Inl e, s4) \<Rightarrow> (Inl e, s4)
                 | (Inr import_lro, s4) \<Rightarrow>
                   (case result ImportOperation import_lro s4 of
                      (Inl e, s5) \<Rightarrow> (Inl e, s5)
                    | (Inr _, s5) \<Rightarrow> (Inr dataset_obj, s5)))
              else (Inr dataset_obj, s3))))"

text \<open>\<^verbatim>\<open>Dataset._create_and_import\<close> as callers see it, under its decorator.\<close>

definition u_create_and_import ::
  "dataset_class \<Rightarrow> api_client \<Rightarrow> string \<Rightarrow> string \<Rightarrow> string \<Rightarrow> datasource \<Rightarrow> string
     \<Rightarrow> string \<Rightarrow> credentials option \<Rightarrow> (string \<times> string) list \<Rightarrow> bool
     \<Rightarrow> event list \<Rightarrow> (error + handle) \<times> event list" where
  "u_create_and_import cls api_client parent display_name metadata_schema_uri datasource
       project location credentials request_metadata sync s =
     optional_sync sync
       (u_create_and_import_body cls api_client parent display_name metadata_schema_uri
          datasource project location credentials request_metadata) s"

text \<open>
  \<^verbatim>\<open>Dataset.create\<close>, source lines 179 to 204. \<^verbatim>\<open>cls._instantiate_client\<close> builds the
  client object and sends nothing; the client is the parameter \<open>api_client\<close>.
\<close>

definition option_or :: "'a option \<Rightarrow> 'a option \<Rightarrow> 'a option" where
  "option_or a b = (case a of None \<Rightarrow> b | Some x \<Rightarrow> Some x)"

definition create ::
  "dataset_class \<Rightarrow> environment \<Rightarrow> api_client \<Rightarrow> string \<Rightarrow> string \<Rightarrow> string list option
     \<Rightarrow> string option \<Rightarrow> string option \<Rightarrow> (string \<times> string) list option \<Rightarrow> string option
     \<Rightarrow> string option \<Rightarrow> credentials option \<Rightarrow> (string \<times> string) list \<Rightarrow> bool
     \<Rightarrow> event list \<Rightarrow> (error + handle) \<times> event list" where
  "create cls env api_client display_name metadata_schema_uri gcs_source bq_source
       import_schema_uri data_item_labels project location credentials request_metadata sync s =
     (case utils_validate_display_name env display_name of
        Inl e \<Rightarrow> (Inl e, s)
      | Inr _ \<Rightarrow>
        (case datasources_create_datasource env metadata_schema_uri import_schema_uri
                gcs_source bq_source data_item_labels of
           Inl e \<Rightarrow> (Inl e, s)
         | Inr datasource \<Rightarrow>
           u_create_and_import cls api_client
             (global_config_common_location_path env project location)
             display_name metadata_schema_uri datasource
             (py_or project (global_config_project env))
             (py_or location (global_config_location env))
             (option_or credentials (global_config_credentials env))
             request_metadata sync s))"

subsection \<open>Export\<close>

text \<open>\<^verbatim>\<open>Dataset.export_data\<close>, source lines 442 to 455.\<close>

definition export_data ::
  "api_client \<Rightarrow> handle \<Rightarrow> string \<Rightarrow> event list
     \<Rightarrow> (error + string list) \<times> handle \<times> event list" where
  "export_data api_client self output_dir s =
     (case wait self s of
        (Inl e, self1, s1) \<Rightarrow> (Inl e, self1, s1)
      | (Inr obj, self1, s1) \<Rightarrow>
        (let export_data_config =
               \<lparr>gcs_destination = \<lparr>output_uri_prefix = output_dir\<rparr>\<rparr>;
             s2 = s1 @ [ExportDataRequest (resource_name obj) export_data_config]
         in case client_export_data api_client (resource_name obj) export_data_config of
              Inl e \<Rightarrow> (Inl e, self1, s2)
            | Inr export_lro \<Rightarrow>
              (case result ExportOperation export_lro s2 of
                 (Inl e, s3) \<Rightarrow> (Inl e, self1, s3)
               | (Inr export_data_response, s3) \<Rightarrow>
                 (Inr (exported_files export_data_response), self1, s3))))"

section \<open>Tabular serializer (experimental/vertex\_model/serializers/pandas.py)\<close>

text \<open>
  The names the module binds at its top level: its imports (source lines 18 to 43) and
  its two functions. A name that a function body reads and that is neither a local nor
  in this list nor a builtin raises \<^verbatim>\<open>NameError\<close> when the statement runs.
\<close>

definition module_globals :: "string list" where
  "module_globals =
     [''functools'', ''inspect'', ''logging'', ''tempfile'', ''io'', ''sys'',
      ''Any'', ''Dict'', ''List'', ''Sequence'', ''Tuple'', ''Type'',
      ''operation'', ''auth_credentials'', ''initializer'', ''utils'',
      ''gca_encryption_spec'', ''aiplatform'', ''pd'',
      ''_serialize_dataframe'', ''_deserialize_dataframe'']"

definition load_global :: "string list \<Rightarrow> string \<Rightarrow> error + unit" where
  "load_global globals n = (if n \<in> set globals then Inr () else Inl (NameError n))"

text \<open>
  The world the serializer acts on: the files on the local disk (path and content) and
  the blobs in object storage (bucket, blob name and content).
\<close>

record world =
  local_files :: "(string \<times> string) list"
  blobs :: "((string \<times> string) \<times> string) list"

text \<open>\<^verbatim>\<open>obj.to_csv(path)\<close> writes the file.\<close>

definition to_csv :: "string \<Rightarrow> string \<Rightarrow> world \<Rightarrow> world" where
  "to_csv obj path w = w\<lparr>local_files := (path, obj) # local_files w\<rparr>"

text \<open>Leaving a \<^verbatim>\<open>tempfile.TemporaryDirectory\<close> context removes the directory with
  every file below it, on a normal exit and on an exception alike.\<close>

definition cleanup :: "string \<Rightarrow> world \<Rightarrow> world" where
  "cleanup tmpdirname w =
     w\<lparr>local_files :=
         filter (\<lambda>(path, content). take (length tmpdirname + 1) path \<noteq> tmpdirname @ ''/'')
           (local_files w)\<rparr>"

text \<open>\<^verbatim>\<open>path.name\<close>: the last component of a path.\<close>

definition path_name :: "string \<Rightarrow> string" where
  "path_name path = rev (takeWhile (\<lambda>c. c \<noteq> CHR ''/'') (rev path))"

text \<open>\<^verbatim>\<open>blob.upload_from_filename(path)\<close> opens the local file, which raises when it does
  not exist, and stores its content.\<close>

definition upload_from_filename ::
  "string \<Rightarrow> string \<Rightarrow> string \<Rightarrow> world \<Rightarrow> (error + unit) \<times> world" where
  "upload_from_filename bucket blob_name path w =
     (case map_of (local_files w) path of
        None \<Rightarrow> (Inl (FileNotFoundError path), w)
      | Some content \<Rightarrow> (Inr (), w\<lparr>blobs := ((bucket, blob_name), content) # blobs w\<rparr>))"

text \<open>
  \<^verbatim>\<open>_serialize_dataframe\<close>, source lines 62 to 83. \<open>globals\<close> is the module namespace
  the body runs in, \<open>extract\<close> what \<^verbatim>\<open>extract_bucket_and_prefix_from_gcs_path\<close> would
  compute if the name resolved, \<open>tmpdirname\<close> the directory the operating system hands
  out, \<open>obj\<close> the CSV text of the dataframe. Each statement first loads the global names
  it reads, in evaluation order.
\<close>

definition serialize_dataframe ::
  "string list \<Rightarrow> (string \<Rightarrow> string \<times> string) \<Rightarrow> string \<Rightarrow> string \<Rightarrow> string \<Rightarrow> string
     \<Rightarrow> world \<Rightarrow> (error + string) \<times> world" where
  "serialize_dataframe globals extract tmpdirname artifact_uri obj dataset_type w =
     (case load_global globals ''tempfile'' of
        Inl e \<Rightarrow> (Inl e, w)
      | Inr _ \<Rightarrow>
        (let inside =
               (case load_global globals ''pathlib'' of
                  Inl e \<Rightarrow> (Inl e, w)
                | Inr _ \<Rightarrow>
                  (let temp_dir = tmpdirname @ ''/'' @ (''my_'' @ dataset_type @ ''_dataset.csv'');
                       path_to_csv = temp_dir
                   in (Inr path_to_csv, to_csv obj path_to_csv w)));
             w1 = cleanup tmpdirname (snd inside)
         in case fst inside of
              Inl e \<Rightarrow> (Inl e, w1)
            | Inr path_to_csv \<Rightarrow>
              (case load_global globals ''extract_bucket_and_prefix_from_gcs_path'' of
                 Inl e \<Rightarrow> (Inl e, w1)
               | Inr _ \<Rightarrow>
                 (let (gcs_bucket, gcs_blob_prefix) = extract artifact_uri;
                      local_file_name = path_name path_to_csv;
                      blob_path = (if gcs_blob_prefix \<noteq> []
                                   then join ''/'' [gcs_blob_prefix, local_file_name]
                                   else local_file_name)
                  in case load_global globals ''storage'' of
                       Inl e \<Rightarrow> (Inl e, w1)
                     | Inr _ \<Rightarrow>
                       (case load_global globals ''initializer'' of
                          Inl e \<Rightarrow> (Inl e, w1)
                        | Inr _ \<Rightarrow>
                          (case upload_from_filename gcs_bucket blob_path path_to_csv w1 of
                             (Inl e, w2) \<Rightarrow> (Inl e, w2)
                           | (Inr _, w2) \<Rightarrow>
                             (Inr (concat [''gs://'', join ''/'' [gcs_bucket, blob_path]]),
                              w2)))))))"

section \<open>Concrete inputs\<close>

text \<open>A lookup table with one container, and a documentation URL.\<close>

definition example_map :: uri_map where
  "example_map =
     [(''us'', [(''tensorflow'', [(''cpu'',
        [(''2.6'', ''us-docker.pkg.dev/vertex-ai/prediction/tf2-cpu.2-6:latest'')])])])]"

definition example_doc_url :: string where
  "example_doc_url = ''https://cloud.google.com/vertex-ai/docs/predictions/pre-built-containers''"

text \<open>A table with an empty URI leaf.\<close>

definition blank_leaf_map :: uri_map where
  "blank_leaf_map = [(''us'', [(''tensorflow'', [(''cpu'', [(''2.6'', [])])])])]"

text \<open>
  A gateway on which every call succeeds: the created dataset is named after its parent,
  a fetched dataset carries the image schema, an export writes one file below the prefix
  it was given.
\<close>

definition image_schema :: string where
  "image_schema = ''gs://google-cloud-aiplatform/schema/dataset/metadata/image_1.0.0.yaml''"

definition text_schema :: string where
  "text_schema = ''gs://google-cloud-aiplatform/schema/dataset/metadata/text_1.0.0.yaml''"

definition example_client :: api_client where
  "example_client =
     \<lparr>client_create_dataset =
        (\<lambda>parent d md. Inr (Inr (d\<lparr>gca_name := parent @ ''/datasets/1''\<rparr>))),
      client_get_dataset =
        (\<lambda>n. Inr \<lparr>gca_name = n, gca_display_name = ''flowers'',
                   gca_metadata_schema_uri = image_schema, gca_metadata = []\<rparr>),
      client_import_data = (\<lambda>n configs. Inr (Inr ())),
      client_export_data =
        (\<lambda>n config. Inr (Inr \<lparr>exported_files =
           [output_uri_prefix (gcs_destination config) @ ''export/data.jsonl'']\<rparr>))\<rparr>"

text \<open>
  An environment: the display name is validated as the spec says, no URI is required,
  and a Cloud Storage source makes the datasource importable.
\<close>

definition example_env :: environment where
  "example_env =
     \<lparr>utils_validate_display_name = validate_display_name,
      datasources_create_datasource =
        create_datasource (\<lambda>md imp gcs bq. False)
          (\<lambda>md imp gcs bq labels.
             case gcs of None \<Rightarrow> Datasource [] | Some uris \<Rightarrow> DatasourceImportable [] (concat uris)),
      global_config_project = ''my-project'',
      global_config_location = ''us-central1'',
      global_config_credentials = None,
      global_config_common_location_path =
        (\<lambda>project location. ''projects/'' @ py_or project ''my-project''
           @ ''/locations/'' @ py_or location ''us-central1'')\<rparr>"

definition Dataset_class :: dataset_class where
  "Dataset_class = \<lparr>class_name = ''Dataset'', supported_metadata_schema_uris = None\<rparr>"

definition ImageDataset_class :: dataset_class where
  "ImageDataset_class =
     \<lparr>class_name = ''ImageDataset'', supported_metadata_schema_uris = Some [image_schema]\<rparr>"

definition TextDataset_class :: dataset_class where
  "TextDataset_class =
     \<lparr>class_name = ''TextDataset'', supported_metadata_schema_uris = Some [text_schema]\<rparr>"

definition example_dataset :: dataset where
  "example_dataset =
     \<lparr>gca_resource =
        \<lparr>gca_name = ''projects/my-project/locations/us-central1/datasets/1'',
         gca_display_name = ''flowers'', gca_metadata_schema_uri = image_schema,
         gca_metadata = []\<rparr>,
      dataset_project = Some ''my-project'', dataset_location = Some ''us-central1'',
      dataset_credentials = None\<rparr>"

text \<open>The deferred body of an asynchronous \<open>create\<close> without a source.\<close>

definition pending_body :: task where
  "pending_body =
     u_create_and_import_body Dataset_class example_client
       ''projects/my-project/locations/us-central1'' ''flowers'' image_schema (Datasource [])
       ''my-project'' ''us-central1'' None []"

definition empty_world :: world where
  "empty_world = \<lparr>local_files = [], blobs = []\<rparr>"

section \<open>Properties of the container URI resolver\<close>

subsection \<open>Normalisation, the table and the levels of the walk\<close>

lemma ascii_lower_char_idem: "ascii_lower_char (ascii_lower_char c) = ascii_lower_char c"
  by (simp add: ascii_lower_char_def Let_def)

lemma ascii_lower_idem: "ascii_lower (ascii_lower s) = ascii_lower s"
  by (simp add: ascii_lower_def ascii_lower_char_idem)

lemma split_first_idem: "split_first c (split_first c s) = split_first c s"
  by (simp add: split_first_def)

lemma split_first_no_sep: "c \<notin> set s \<Longrightarrow> split_first c s = s"
  by (auto simp: split_first_def)

lemma py_or_Some: "r \<noteq> [] \<Longrightarrow> py_or (Some r) d = r"
  by (simp add: py_or_def)

lemma dict_get_nonempty: "dict_get d k = Some v \<Longrightarrow> d \<noteq> []"
  by (auto simp: dict_get_def)

lemma dict_get_member: "dict_get d k = Some v \<Longrightarrow> (k, v) \<in> set d"
  by (simp add: dict_get_def map_of_SomeD)

lemma keys_normalised_region:
  assumes "keys_normalised str_lower URI_MAP" and "dict_get URI_MAP region = Some frameworks"
  shows "region \<noteq> [] \<and> CHR ''-'' \<notin> set region"
  using assms(1) dict_get_member[OF assms(2)]
  by (auto simp: keys_normalised_def list_all_iff)

lemma keys_normalised_framework:
  assumes "keys_normalised str_lower URI_MAP" and "dict_get URI_MAP region = Some frameworks"
    and "dict_get frameworks framework = Some accelerators"
  shows "str_lower framework = framework"
  using assms(1) dict_get_member[OF assms(2)] dict_get_member[OF assms(3)]
  by (auto simp: keys_normalised_def list_all_iff)

lemma mappings_nonempty_region:
  assumes "mappings_nonempty URI_MAP" and "dict_get URI_MAP region = Some frameworks"
  shows "frameworks \<noteq> []"
  using assms(1) dict_get_member[OF assms(2)]
  by (auto simp: mappings_nonempty_def list_all_iff)

lemma mappings_nonempty_framework:
  assumes "mappings_nonempty URI_MAP" and "dict_get URI_MAP region = Some frameworks"
    and "dict_get frameworks framework = Some accelerators"
  shows "accelerators \<noteq> []"
  using assms(1) dict_get_member[OF assms(2)] dict_get_member[OF assms(3)]
  by (auto simp: mappings_nonempty_def list_all_iff)

lemma mappings_nonempty_accelerator:
  assumes "mappings_nonempty URI_MAP" and "dict_get URI_MAP region = Some frameworks"
    and "dict_get frameworks framework = Some accelerators"
    and "dict_get accelerators accelerator = Some versions"
  shows "versions \<noteq> []"
  using assms(1) dict_get_member[OF assms(2)] dict_get_member[OF assms(3)]
    dict_get_member[OF assms(4)]
  by (fastforce simp: mappings_nonempty_def list_all_iff)

lemma resolve_found:
  assumes "dict_get URI_MAP (split_first (CHR ''-'') (py_or region location)) = Some frameworks"
    and "dict_get frameworks (str_lower framework) = Some accelerators"
    and "dict_get accelerators accelerator = Some versions"
    and "dict_get versions framework_version = Some uri"
    and "uri \<noteq> []"
  shows "get_prebuilt_prediction_container_uri str_lower URI_MAP DOC_URL location
           framework framework_version region accelerator = Inr uri"
  using assms dict_get_nonempty[OF assms(2)] dict_get_nonempty[OF assms(3)]
    dict_get_nonempty[OF assms(4)]
  by (simp add: get_prebuilt_prediction_container_uri_def falsy_def Let_def)

lemma resolve_region_falsy:
  assumes "falsy (dict_get URI_MAP (split_first (CHR ''-'') (py_or region location)))"
  shows "get_prebuilt_prediction_container_uri str_lower URI_MAP DOC_URL location
           framework framework_version region accelerator
         = Inl (ValueError (region_message URI_MAP DOC_URL
                  (split_first (CHR ''-'') (py_or region location))))"
  using assms by (simp add: get_prebuilt_prediction_container_uri_def)

lemma resolve_framework_falsy:
  assumes "dict_get URI_MAP (split_first (CHR ''-'') (py_or region location)) = Some frameworks"
    and "frameworks \<noteq> []"
    and "falsy (dict_get frameworks (str_lower framework))"
  shows "get_prebuilt_prediction_container_uri str_lower URI_MAP DOC_URL location
           framework framework_version region accelerator
         = Inl (ValueError (framework_message frameworks DOC_URL (str_lower framework)))"
  using assms by (simp add: get_prebuilt_prediction_container_uri_def falsy_def)

lemma resolve_accelerator_falsy:
  assumes "dict_get URI_MAP (split_first (CHR ''-'') (py_or region location)) = Some frameworks"
    and "dict_get frameworks (str_lower framework) = Some accelerators"
    and "accelerators \<noteq> []"
    and "falsy (dict_get accelerators accelerator)"
  shows "get_prebuilt_prediction_container_uri str_lower URI_MAP DOC_URL location
           framework framework_version region accelerator
         = Inl (ValueError
             (accelerator_message accelerators DOC_URL (str_lower framework) accelerator))"
  using assms dict_get_nonempty[OF assms(2)]
  by (simp add: get_prebuilt_prediction_container_uri_def falsy_def)

lemma resolve_version_falsy:
  assumes "dict_get URI_MAP (split_first (CHR ''-'') (py_or region location)) = Some frameworks"
    and "dict_get frameworks (str_lower framework) = Some accelerators"
    and "dict_get accelerators accelerator = Some versions"
    and "versions \<noteq> []"
    and "falsy (dict_get versions framework_version)"
  shows "get_prebuilt_prediction_container_uri str_lower URI_MAP DOC_URL location
           framework framework_version region accelerator
         = Inl (ValueError
             (version_message versions DOC_URL (str_lower framework) framework_version
                accelerator))"
  using assms dict_get_nonempty[OF assms(2)] dict_get_nonempty[OF assms(3)]
  by (auto simp add: get_prebuilt_prediction_container_uri_def falsy_def split: option.splits)

lemma resolve_outcome:
  "(\<exists>m. get_prebuilt_prediction_container_uri str_lower URI_MAP DOC_URL location
           framework framework_version region accelerator = Inl (ValueError m))
   \<or> (\<exists>u. u \<noteq> [] \<and> get_prebuilt_prediction_container_uri str_lower URI_MAP DOC_URL location
           framework framework_version region accelerator = Inr u)"
  by (auto simp add: get_prebuilt_prediction_container_uri_def falsy_def Let_def
        split: option.splits)

lemma resolve_normalised_args:
  assumes "split_first (CHR ''-'') r \<noteq> []" and "str_lower (str_lower f) = str_lower f"
  shows "get_prebuilt_prediction_container_uri str_lower URI_MAP DOC_URL location f v (Some r) a
       = get_prebuilt_prediction_container_uri str_lower URI_MAP DOC_URL location
           (str_lower f) v (Some (split_first (CHR ''-'') r)) a"
proof -
  from assms(1) have r: "r \<noteq> []" by (auto simp: split_first_def)
  have "py_or (Some r) location = r" using r by (rule py_or_Some)
  moreover have "py_or (Some (split_first (CHR ''-'') r)) location = split_first (CHR ''-'') r"
    using assms(1) by (rule py_or_Some)
  ultimately show ?thesis
    using assms(2)
    by (simp add: get_prebuilt_prediction_container_uri_def split_first_idem)
qed

lemmas eval_defs =
  get_prebuilt_prediction_container_uri_def py_or_def split_first_def ascii_lower_def
  ascii_lower_char_def dict_get_def falsy_def region_message_def framework_message_def
  accelerator_message_def version_message_def dict_keys_def DOCS_URI_MESSAGE_def

subsection \<open>Stored URIs\<close>

text \<open>
  C3. On a table whose keys are in the form the function looks up, for every quadruple
  (region, framework, accelerator, version) such that region is a key of the table,
  framework a key under it, accelerator a key under that and version a key holding a
  non-empty URI, the call with that framework, version, region and accelerator returns
  exactly the stored URI and raises nothing. This holds for every lowercasing.
\<close>

theorem stored_uri_returned:
  assumes "keys_normalised str_lower URI_MAP"
    and "dict_get URI_MAP region = Some frameworks"
    and "dict_get frameworks framework = Some accelerators"
    and "dict_get accelerators accelerator = Some versions"
    and "dict_get versions framework_version = Some uri"
    and "uri \<noteq> []"
  shows "get_prebuilt_prediction_container_uri str_lower URI_MAP DOC_URL location
           framework framework_version (Some region) accelerator = Inr uri"
proof -
  from keys_normalised_region[OF assms(1,2)]
  have "split_first (CHR ''-'') (py_or (Some region) location) = region"
    by (simp add: py_or_Some split_first_no_sep)
  moreover from keys_normalised_framework[OF assms(1,2,3)]
  have "str_lower framework = framework" .
  ultimately show ?thesis
    using assms by (simp add: resolve_found)
qed

theorem stored_uri_returned_witness:
  "keys_normalised ascii_lower example_map
   \<and> get_prebuilt_prediction_container_uri ascii_lower example_map example_doc_url
        ''us-central1'' ''tensorflow'' ''2.6'' (Some ''us'') ''cpu''
     = Inr ''us-docker.pkg.dev/vertex-ai/prediction/tf2-cpu.2-6:latest''"
proof -
  have 1: "keys_normalised ascii_lower example_map"
    by (simp add: keys_normalised_def example_map_def ascii_lower_def ascii_lower_char_def)
  have 2: "dict_get example_map ''us'' = Some [(''tensorflow'', [(''cpu'',
        [(''2.6'', ''us-docker.pkg.dev/vertex-ai/prediction/tf2-cpu.2-6:latest'')])])]"
    by (simp add: dict_get_def example_map_def)
  have 3: "dict_get [(''tensorflow'', [(''cpu'',
        [(''2.6'', ''us-docker.pkg.dev/vertex-ai/prediction/tf2-cpu.2-6:latest'')])])] ''tensorflow''
      = Some [(''cpu'', [(''2.6'', ''us-docker.pkg.dev/vertex-ai/prediction/tf2-cpu.2-6:latest'')])]"
    by (simp add: dict_get_def)
  have 4: "dict_get [(''cpu'',
        [(''2.6'', ''us-docker.pkg.dev/vertex-ai/prediction/tf2-cpu.2-6:latest'')])] ''cpu''
      = Some [(''2.6'', ''us-docker.pkg.dev/vertex-ai/prediction/tf2-cpu.2-6:latest'')]"
    by (simp add: dict_get_def)
  have 5: "dict_get [(''2.6'', ''us-docker.pkg.dev/vertex-ai/prediction/tf2-cpu.2-6:latest'')] ''2.6''
      = Some ''us-docker.pkg.dev/vertex-ai/prediction/tf2-cpu.2-6:latest''"
    by (simp add: dict_get_def)
  have "get_prebuilt_prediction_container_uri ascii_lower example_map example_doc_url
          ''us-central1'' ''tensorflow'' ''2.6'' (Some ''us'') ''cpu''
        = Inr ''us-docker.pkg.dev/vertex-ai/prediction/tf2-cpu.2-6:latest''"
    by (rule stored_uri_returned[OF 1 2 3 4 5]) simp
  with 1 show ?thesis by simp
qed

subsection \<open>Calls with normalised arguments\<close>

text \<open>
  C6, as the code has it. For every region string \<open>r\<close> whose first hyphen-delimited
  segment is not empty (so \<open>r\<close> is not empty and does not begin with a hyphen) and every
  framework string \<open>f\<close>, the call with region \<open>r\<close> and framework \<open>f\<close> gives the same
  URI or the same error as the call with the first segment of \<open>r\<close> and the lowercase of
  \<open>f\<close>; in particular resolving with region \<^verbatim>\<open>us-east1\<close> is resolving with region
  \<^verbatim>\<open>us\<close>. The equation is proved for the ASCII lowercasing and, beyond it, for every
  lowercasing that leaves the lowercase of \<open>f\<close> as it is, which \<^verbatim>\<open>str.lower()\<close> does.
\<close>

theorem normalised_call_identical:
  "(split_first (CHR ''-'') r \<noteq> [] \<longrightarrow>
      get_prebuilt_prediction_container_uri ascii_lower URI_MAP DOC_URL location f v (Some r) a
      = get_prebuilt_prediction_container_uri ascii_lower URI_MAP DOC_URL location
          (ascii_lower f) v (Some (split_first (CHR ''-'') r)) a)
   \<and> (split_first (CHR ''-'') r \<noteq> [] \<and> str_lower (str_lower f) = str_lower f \<longrightarrow>
      get_prebuilt_prediction_container_uri str_lower URI_MAP DOC_URL location f v (Some r) a
      = get_prebuilt_prediction_container_uri str_lower URI_MAP DOC_URL location
          (str_lower f) v (Some (split_first (CHR ''-'') r)) a)
   \<and> get_prebuilt_prediction_container_uri str_lower URI_MAP DOC_URL location f v
        (Some ''us-east1'') a
     = get_prebuilt_prediction_container_uri str_lower URI_MAP DOC_URL location f v
        (Some ''us'') a"
proof (intro conjI impI)
  assume "split_first (CHR ''-'') r \<noteq> []"
  then show "get_prebuilt_prediction_container_uri ascii_lower URI_MAP DOC_URL location f v
        (Some r) a
      = get_prebuilt_prediction_container_uri ascii_lower URI_MAP DOC_URL location
          (ascii_lower f) v (Some (split_first (CHR ''-'') r)) a"
    by (simp add: resolve_normalised_args ascii_lower_idem)
next
  assume "split_first (CHR ''-'') r \<noteq> [] \<and> str_lower (str_lower f) = str_lower f"
  then show "get_prebuilt_prediction_container_uri str_lower URI_MAP DOC_URL location f v
        (Some r) a
      = get_prebuilt_prediction_container_uri str_lower URI_MAP DOC_URL location
          (str_lower f) v (Some (split_first (CHR ''-'') r)) a"
    by (simp add: resolve_normalised_args)
next
  show "get_prebuilt_prediction_container_uri str_lower URI_MAP DOC_URL location f v
        (Some ''us-east1'') a
     = get_prebuilt_prediction_container_uri str_lower URI_MAP DOC_URL location f v
        (Some ''us'') a"
    by (simp add: get_prebuilt_prediction_container_uri_def py_or_def split_first_def)
qed

theorem normalised_call_identical_witness:
  "split_first (CHR ''-'') ''europe-west4'' \<noteq> []
   \<and> ascii_lower (ascii_lower ''SKLearn'') = ascii_lower ''SKLearn''
   \<and> get_prebuilt_prediction_container_uri ascii_lower example_map example_doc_url
        ''us-central1'' ''SKLearn'' ''1.0'' (Some ''europe-west4'') ''cpu''
     = get_prebuilt_prediction_container_uri ascii_lower example_map example_doc_url
        ''us-central1'' (ascii_lower ''SKLearn'') ''1.0''
        (Some (split_first (CHR ''-'') ''europe-west4'')) ''cpu''"
proof -
  have h: "split_first (CHR ''-'') ''europe-west4'' \<noteq> []" by (simp add: split_first_def)
  have i: "ascii_lower (ascii_lower ''SKLearn'') = ascii_lower ''SKLearn''"
    by (rule ascii_lower_idem)
  from normalised_call_identical[where r = "''europe-west4''" and URI_MAP = example_map
      and DOC_URL = example_doc_url and location = "''us-central1''" and f = "''SKLearn''"
      and v = "''1.0''" and a = "''cpu''" and str_lower = ascii_lower] h i
  show ?thesis by blast
qed

text \<open>
  A region that begins with a hyphen is not empty, but its first segment is. The call with
  the region itself looks up the empty key and raises; the call with the first segment
  receives an empty region, falls back to the ambient location and finds the container.
\<close>

theorem normalised_call_counterexample:
  "''-east1'' \<noteq> []
   \<and> get_prebuilt_prediction_container_uri ascii_lower example_map example_doc_url
        ''us-central1'' ''tensorflow'' ''2.6'' (Some ''-east1'') ''cpu''
     = Inl (ValueError (''Unsupported container region ``, supported regions are us. ''
          @ ''See https://cloud.google.com/vertex-ai/docs/predictions/pre-built-containers ''
          @ ''for complete list of supported containers''))
   \<and> get_prebuilt_prediction_container_uri ascii_lower example_map example_doc_url
        ''us-central1'' (ascii_lower ''tensorflow'') ''2.6''
        (Some (split_first (CHR ''-'') ''-east1'')) ''cpu''
     = Inr ''us-docker.pkg.dev/vertex-ai/prediction/tf2-cpu.2-6:latest''"
  by (simp add: eval_defs example_map_def example_doc_url_def)

subsection \<open>Failing fast\<close>

text \<open>
  C7. On a table in which no key holds an empty mapping, every call whose normalised
  region is a key of the table but whose normalised framework is absent under that
  region fails with a \<^verbatim>\<open>ValueError\<close> whose message enumerates exactly the framework
  keys of that region, and the outcome is the same for every accelerator and version: no
  later level is consulted. More generally the walk fails at the first level whose key
  is absent (region, framework, accelerator, version, in this order), with the message
  that lists the keys of that level. This holds for every lowercasing.
\<close>

theorem walk_fails_fast:
  assumes "mappings_nonempty URI_MAP"
  shows
  "(dict_get URI_MAP (split_first (CHR ''-'') (py_or region location)) = None \<longrightarrow>
      get_prebuilt_prediction_container_uri str_lower URI_MAP DOC_URL location
        framework framework_version region accelerator
      = Inl (ValueError
          (''Unsupported container region `'' @ split_first (CHR ''-'') (py_or region location)
           @ ''`, supported regions are '' @ join '', '' (dict_keys URI_MAP)
           @ ''. '' @ DOCS_URI_MESSAGE DOC_URL)))
   \<and> (dict_get URI_MAP (split_first (CHR ''-'') (py_or region location)) = Some frameworks
        \<and> dict_get frameworks (str_lower framework) = None \<longrightarrow>
      (\<forall>accelerator' version'.
         get_prebuilt_prediction_container_uri str_lower URI_MAP DOC_URL location
           framework version' region accelerator'
         = Inl (ValueError
             (''No containers found for framework `'' @ str_lower framework
              @ ''`. Supported frameworks are '' @ join '', '' (dict_keys frameworks)
              @ '' '' @ DOCS_URI_MESSAGE DOC_URL))))
   \<and> (dict_get URI_MAP (split_first (CHR ''-'') (py_or region location)) = Some frameworks
        \<and> dict_get frameworks (str_lower framework) = Some accelerators
        \<and> dict_get accelerators accelerator = None \<longrightarrow>
      (\<forall>version'.
         get_prebuilt_prediction_container_uri str_lower URI_MAP DOC_URL location
           framework version' region accelerator
         = Inl (ValueError
             (str_lower framework @ '' containers do not support `'' @ accelerator
              @ ''` accelerator. Supported accelerators are ''
              @ join '', '' (dict_keys accelerators) @ ''. '' @ DOCS_URI_MESSAGE DOC_URL))))
   \<and> (dict_get URI_MAP (split_first (CHR ''-'') (py_or region location)) = Some frameworks
        \<and> dict_get frameworks (str_lower framework) = Some accelerators
        \<and> dict_get accelerators accelerator = Some versions
        \<and> dict_get versions framework_version = None \<longrightarrow>
      get_prebuilt_prediction_container_uri str_lower URI_MAP DOC_URL location
        framework framework_version region accelerator
      = Inl (ValueError
          (''No serving container for `'' @ str_lower framework @ ''` version `''
           @ framework_version @ ''` with accelerator `'' @ accelerator
           @ ''` found. Supported versions include '' @ join '', '' (dict_keys versions)
           @ ''. '' @ DOCS_URI_MESSAGE DOC_URL)))"
proof (intro conjI impI allI)
  assume "dict_get URI_MAP (split_first (CHR ''-'') (py_or region location)) = None"
  then show "get_prebuilt_prediction_container_uri str_lower URI_MAP DOC_URL location
        framework framework_version region accelerator
      = Inl (ValueError
          (''Unsupported container region `'' @ split_first (CHR ''-'') (py_or region location)
           @ ''`, supported regions are '' @ join '', '' (dict_keys URI_MAP)
           @ ''. '' @ DOCS_URI_MESSAGE DOC_URL))"
    by (simp add: resolve_region_falsy falsy_def region_message_def)
next
  fix accelerator' version'
  assume a: "dict_get URI_MAP (split_first (CHR ''-'') (py_or region location)) = Some frameworks
        \<and> dict_get frameworks (str_lower framework) = None"
  then have "frameworks \<noteq> []"
    using mappings_nonempty_region[OF assms] by blast
  with a show "get_prebuilt_prediction_container_uri str_lower URI_MAP DOC_URL location
           framework version' region accelerator'
         = Inl (ValueError
             (''No containers found for framework `'' @ str_lower framework
              @ ''`. Supported frameworks are '' @ join '', '' (dict_keys frameworks)
              @ '' '' @ DOCS_URI_MESSAGE DOC_URL))"
    by (simp add: resolve_framework_falsy falsy_def framework_message_def)
next
  fix version'
  assume a: "dict_get URI_MAP (split_first (CHR ''-'') (py_or region location)) = Some frameworks
        \<and> dict_get frameworks (str_lower framework) = Some accelerators
        \<and> dict_get accelerators accelerator = None"
  then have "accelerators \<noteq> []"
    using mappings_nonempty_framework[OF assms] by blast
  with a show "get_prebuilt_prediction_container_uri str_lower URI_MAP DOC_URL location
           framework version' region accelerator
         = Inl (ValueError
             (str_lower framework @ '' containers do not support `'' @ accelerator
              @ ''` accelerator. Supported accelerators are ''
              @ join '', '' (dict_keys accelerators) @ ''. '' @ DOCS_URI_MESSAGE DOC_URL))"
    by (simp add: resolve_accelerator_falsy falsy_def accelerator_message_def)
next
  assume a: "dict_get URI_MAP (split_first (CHR ''-'') (py_or region location)) = Some frameworks
        \<and> dict_get frameworks (str_lower framework) = Some accelerators
        \<and> dict_get accelerators accelerator = Some versions
        \<and> dict_get versions framework_version = None"
  then have "versions \<noteq> []"
    using mappings_nonempty_accelerator[OF assms] by blast
  with a show "get_prebuilt_prediction_container_uri str_lower URI_MAP DOC_URL location
        framework framework_version region accelerator
      = Inl (ValueError
          (''No serving container for `'' @ str_lower framework @ ''` version `''
           @ framework_version @ ''` with accelerator `'' @ accelerator
           @ ''` found. Supported versions include '' @ join '', '' (dict_keys versions)
           @ ''. '' @ DOCS_URI_MESSAGE DOC_URL))"
    by (simp add: resolve_version_falsy falsy_def version_message_def)
qed

theorem walk_fails_fast_witness:
  "mappings_nonempty example_map
   \<and> dict_get example_map (split_first (CHR ''-'') (py_or (Some ''us-east1'') ''us-central1''))
     = Some [(''tensorflow'', [(''cpu'',
          [(''2.6'', ''us-docker.pkg.dev/vertex-ai/prediction/tf2-cpu.2-6:latest'')])])]
   \<and> dict_get [(''tensorflow'', [(''cpu'',
          [(''2.6'', ''us-docker.pkg.dev/vertex-ai/prediction/tf2-cpu.2-6:latest'')])])]
        (ascii_lower ''PyTorch'') = None
   \<and> get_prebuilt_prediction_container_uri ascii_lower example_map example_doc_url
        ''us-central1'' ''PyTorch'' ''1.11'' (Some ''us-east1'') ''gpu''
     = Inl (ValueError
         (''No containers found for framework `pytorch`. Supported frameworks are tensorflow ''
          @ ''See https://cloud.google.com/vertex-ai/docs/predictions/pre-built-containers ''
          @ ''for complete list of supported containers''))"
proof -
  have 0: "mappings_nonempty example_map"
    by (simp add: mappings_nonempty_def example_map_def)
  have 1: "dict_get example_map (split_first (CHR ''-'') (py_or (Some ''us-east1'') ''us-central1''))
      = Some [(''tensorflow'', [(''cpu'',
          [(''2.6'', ''us-docker.pkg.dev/vertex-ai/prediction/tf2-cpu.2-6:latest'')])])]"
    by (simp add: dict_get_def example_map_def split_first_def py_or_def)
  have 3: "ascii_lower ''PyTorch'' = ''pytorch''"
    by code_simp
  have 2: "dict_get [(''tensorflow'', [(''cpu'',
          [(''2.6'', ''us-docker.pkg.dev/vertex-ai/prediction/tf2-cpu.2-6:latest'')])])]
        (ascii_lower ''PyTorch'') = None"
    by (simp add: 3 dict_get_def)
  from walk_fails_fast[OF 0, where region = "Some ''us-east1''"
      and location = "''us-central1''" and str_lower = ascii_lower
      and framework = "''PyTorch''" and framework_version = "''1.11''"
      and accelerator = "''gpu''" and DOC_URL = example_doc_url
      and frameworks = "[(''tensorflow'', [(''cpu'',
          [(''2.6'', ''us-docker.pkg.dev/vertex-ai/prediction/tf2-cpu.2-6:latest'')])])]"] 1 2
  have "get_prebuilt_prediction_container_uri ascii_lower example_map example_doc_url
     ''us-central1'' ''PyTorch'' ''1.11'' (Some ''us-east1'') ''gpu''
     = Inl (ValueError
             (''No containers found for framework `'' @ ascii_lower ''PyTorch''
              @ ''`. Supported frameworks are '' @ join '', '' (dict_keys [(''tensorflow'', [(''cpu'',
          [(''2.6'', ''us-docker.pkg.dev/vertex-ai/prediction/tf2-cpu.2-6:latest'')])])])
              @ '' '' @ DOCS_URI_MESSAGE example_doc_url))"
    by blast
  then have "get_prebuilt_prediction_container_uri ascii_lower example_map example_doc_url
        ''us-central1'' ''PyTorch'' ''1.11'' (Some ''us-east1'') ''gpu''
     = Inl (ValueError
         (''No containers found for framework `pytorch`. Supported frameworks are tensorflow ''
          @ ''See https://cloud.google.com/vertex-ai/docs/predictions/pre-built-containers ''
          @ ''for complete list of supported containers''))"
    by (simp add: 3 dict_keys_def DOCS_URI_MESSAGE_def example_doc_url_def)
  with 0 1 2 show ?thesis by blast
qed

subsection \<open>No empty URI\<close>

text \<open>
  C10. For every input the call either raises \<^verbatim>\<open>ValueError\<close> or returns a non-empty
  string. An empty mapping at the region, framework or accelerator level and an empty
  URI leaf raise the \<^verbatim>\<open>ValueError\<close> of their level, as an absent key does, so an
  empty URI is never returned. This holds for every lowercasing.
\<close>

theorem never_returns_empty_uri:
  "(case get_prebuilt_prediction_container_uri str_lower URI_MAP DOC_URL location
           framework framework_version region accelerator of
      Inl e \<Rightarrow> (\<exists>m. e = ValueError m)
    | Inr uri \<Rightarrow> uri \<noteq> [])
   \<and> (dict_get URI_MAP (split_first (CHR ''-'') (py_or region location)) = Some [] \<longrightarrow>
      get_prebuilt_prediction_container_uri str_lower URI_MAP DOC_URL location
        framework framework_version region accelerator
      = Inl (ValueError (region_message URI_MAP DOC_URL
               (split_first (CHR ''-'') (py_or region location)))))
   \<and> (dict_get URI_MAP (split_first (CHR ''-'') (py_or region location)) = Some frameworks
        \<and> dict_get frameworks (str_lower framework) = Some [] \<longrightarrow>
      get_prebuilt_prediction_container_uri str_lower URI_MAP DOC_URL location
        framework framework_version region accelerator
      = Inl (ValueError (framework_message frameworks DOC_URL (str_lower framework))))
   \<and> (dict_get URI_MAP (split_first (CHR ''-'') (py_or region location)) = Some frameworks
        \<and> dict_get frameworks (str_lower framework) = Some accelerators
        \<and> dict_get accelerators accelerator = Some [] \<longrightarrow>
      get_prebuilt_prediction_container_uri str_lower URI_MAP DOC_URL location
        framework framework_version region accelerator
      = Inl (ValueError
          (accelerator_message accelerators DOC_URL (str_lower framework) accelerator)))
   \<and> (dict_get URI_MAP (split_first (CHR ''-'') (py_or region location)) = Some frameworks
        \<and> dict_get frameworks (str_lower framework) = Some accelerators
        \<and> dict_get accelerators accelerator = Some versions
        \<and> dict_get versions framework_version = Some [] \<longrightarrow>
      get_prebuilt_prediction_container_uri str_lower URI_MAP DOC_URL location
        framework framework_version region accelerator
      = Inl (ValueError
          (version_message versions DOC_URL (str_lower framework) framework_version accelerator)))"
proof (intro conjI impI)
  show "case get_prebuilt_prediction_container_uri str_lower URI_MAP DOC_URL location
           framework framework_version region accelerator of
      Inl e \<Rightarrow> (\<exists>m. e = ValueError m)
    | Inr uri \<Rightarrow> uri \<noteq> []"
    using resolve_outcome[of str_lower URI_MAP DOC_URL location framework framework_version region
        accelerator]
    by auto
next
  assume "dict_get URI_MAP (split_first (CHR ''-'') (py_or region location)) = Some []"
  then show "get_prebuilt_prediction_container_uri str_lower URI_MAP DOC_URL location
        framework framework_version region accelerator
      = Inl (ValueError (region_message URI_MAP DOC_URL
               (split_first (CHR ''-'') (py_or region location))))"
    by (simp add: resolve_region_falsy falsy_def)
next
  assume "dict_get URI_MAP (split_first (CHR ''-'') (py_or region location)) = Some frameworks
        \<and> dict_get frameworks (str_lower framework) = Some []"
  then show "get_prebuilt_prediction_container_uri str_lower URI_MAP DOC_URL location
        framework framework_version region accelerator
      = Inl (ValueError (framework_message frameworks DOC_URL (str_lower framework)))"
    using dict_get_nonempty[of frameworks "str_lower framework" "[]"]
    by (simp add: resolve_framework_falsy falsy_def)
next
  assume "dict_get URI_MAP (split_first (CHR ''-'') (py_or region location)) = Some frameworks
        \<and> dict_get frameworks (str_lower framework) = Some accelerators
        \<and> dict_get accelerators accelerator = Some []"
  then show "get_prebuilt_prediction_container_uri str_lower URI_MAP DOC_URL location
        framework framework_version region accelerator
      = Inl (ValueError
          (accelerator_message accelerators DOC_URL (str_lower framework) accelerator))"
    using dict_get_nonempty[of accelerators accelerator "[]"]
    by (simp add: resolve_accelerator_falsy falsy_def)
next
  assume "dict_get URI_MAP (split_first (CHR ''-'') (py_or region location)) = Some frameworks
        \<and> dict_get frameworks (str_lower framework) = Some accelerators
        \<and> dict_get accelerators accelerator = Some versions
        \<and> dict_get versions framework_version = Some []"
  then show "get_prebuilt_prediction_container_uri str_lower URI_MAP DOC_URL location
        framework framework_version region accelerator
      = Inl (ValueError
          (version_message versions DOC_URL (str_lower framework) framework_version accelerator))"
    using dict_get_nonempty[of versions framework_version "[]"]
    by (simp add: resolve_version_falsy falsy_def)
qed

theorem never_returns_empty_uri_witness:
  "dict_get [(''2.6'', [])] ''2.6'' = Some ([] :: string)
   \<and> get_prebuilt_prediction_container_uri ascii_lower blank_leaf_map example_doc_url ''us-central1''
     ''tensorflow'' ''2.6'' None ''cpu''
   = Inl (ValueError
       (''No serving container for `tensorflow` version `2.6` with accelerator `cpu` found. ''
        @ ''Supported versions include 2.6. ''
        @ ''See https://cloud.google.com/vertex-ai/docs/predictions/pre-built-containers ''
        @ ''for complete list of supported containers''))"
proof -
  have 0: "ascii_lower ''tensorflow'' = ''tensorflow''" by (simp add: ascii_lower_def ascii_lower_char_def)
  have 1: "dict_get blank_leaf_map (split_first (CHR ''-'') (py_or None ''us-central1''))
      = Some [(''tensorflow'', [(''cpu'', [(''2.6'', [])])])]"
    by (simp add: dict_get_def blank_leaf_map_def split_first_def py_or_def)
  have 2: "dict_get [(''tensorflow'', [(''cpu'', [(''2.6'', [])])])] (ascii_lower ''tensorflow'')
      = Some [(''cpu'', [(''2.6'', ([] :: string))])]"
    by (simp add: dict_get_def 0)
  have 3: "dict_get [(''cpu'', [(''2.6'', [])])] ''cpu'' = Some [(''2.6'', ([] :: string))]"
    by (simp add: dict_get_def)
  have 4: "dict_get [(''2.6'', [])] ''2.6'' = Some ([] :: string)"
    by (simp add: dict_get_def)
  from never_returns_empty_uri[of ascii_lower blank_leaf_map example_doc_url "''us-central1''"
      "''tensorflow''" "''2.6''" None "''cpu''"
      "[(''tensorflow'', [(''cpu'', [(''2.6'', [])])])]" "[(''cpu'', [(''2.6'', [])])]"
      "[(''2.6'', [])]"] 1 2 3 4
  have "get_prebuilt_prediction_container_uri ascii_lower blank_leaf_map example_doc_url ''us-central1''
     ''tensorflow'' ''2.6'' None ''cpu''
     = Inl (ValueError
          (version_message [(''2.6'', [])] example_doc_url (ascii_lower ''tensorflow'') ''2.6'' ''cpu''))"
    by blast
  then show ?thesis
    by (simp add: 0 4 version_message_def dict_keys_def DOCS_URI_MESSAGE_def example_doc_url_def)
qed

section \<open>Properties of the dataset resource controller\<close>

subsection \<open>Steps of the controller\<close>

lemmas init_defs =
  Dataset_init_def u_get_gca_resource_def u_validate_metadata_schema_uri_def
  metadata_schema_uri_of_def resource_name_def

lemma wait_COMPLETE: "wait (COMPLETE obj) s = (Inr obj, COMPLETE obj, s)"
  by (simp add: wait_def)

lemma wait_PENDING_failed:
  "body s = (Inl e, s1) \<Longrightarrow> wait (PENDING body) s = (Inl e, FAILED e, s1)"
  by (simp add: wait_def)

lemma wait_PENDING_complete:
  "body s = (Inr obj, s1) \<Longrightarrow> wait (PENDING body) s = (Inr obj, COMPLETE obj, s1)"
  by (simp add: wait_def)

lemma export_after_wait:
  assumes "wait self s = (Inr obj, self1, s1)"
  shows "\<exists>r rest. export_data api_client self output_dir s
           = (r, self1,
              s1 @ ExportDataRequest (resource_name obj)
                     \<lparr>gcs_destination = \<lparr>output_uri_prefix = output_dir\<rparr>\<rparr> # rest)
         \<and> (rest = [] \<or> rest = [OperationCompleted ExportOperation])"
  using assms
  by (auto simp: export_data_def result_def Let_def split: sum.splits)

lemma export_wait_failed:
  assumes "wait self s = (Inl e, self1, s1)"
  shows "export_data api_client self output_dir s = (Inl e, self1, s1)"
  using assms by (simp add: export_data_def)

lemma body_returns:
  assumes "u_create_and_import_body cls api_client parent display_name metadata_schema_uri
             datasource project location credentials request_metadata s = (Inr dataset_obj, s')"
  shows "\<exists>created.
           client_create_dataset api_client parent
             \<lparr>gca_name = [], gca_display_name = display_name,
              gca_metadata_schema_uri = metadata_schema_uri,
              gca_metadata = dataset_metadata datasource\<rparr> request_metadata
           = Inr (Inr created)
         \<and> client_get_dataset api_client (gca_name created) = Inr (gca_resource dataset_obj)
         \<and> (isinstance_DatasourceImportable datasource \<longrightarrow>
              client_import_data api_client (resource_name dataset_obj)
                [import_data_config datasource] = Inr (Inr ()))
         \<and> s' = s @ [CreateDatasetRequest parent
                       \<lparr>gca_name = [], gca_display_name = display_name,
                        gca_metadata_schema_uri = metadata_schema_uri,
                        gca_metadata = dataset_metadata datasource\<rparr> request_metadata,
                     OperationCompleted CreateOperation,
                     GetDatasetRequest (gca_name created)]
                  @ (if isinstance_DatasourceImportable datasource
                     then [ImportDataRequest (resource_name dataset_obj)
                             [import_data_config datasource],
                           OperationCompleted ImportOperation]
                     else [])"
  using assms
  by (cases datasource)
     (auto simp: u_create_and_import_body_def u_create_def u_import_def result_def Let_def
        init_defs isinstance_DatasourceImportable_def
        split: sum.splits prod.splits if_splits option.splits)

lemma body_without_import:
  assumes "\<not> isinstance_DatasourceImportable datasource"
  shows "\<exists>new. snd (u_create_and_import_body cls api_client parent display_name
                     metadata_schema_uri datasource project location credentials
                     request_metadata s) = s @ new
             \<and> (\<forall>n configs. ImportDataRequest n configs \<notin> set new)"
  using assms
  by (cases datasource)
     (auto simp: u_create_and_import_body_def u_create_def u_import_def result_def Let_def
        init_defs isinstance_DatasourceImportable_def
        split: sum.splits prod.splits if_splits option.splits)

lemma optional_sync_True_returns:
  "optional_sync True body s = (Inr h, s') \<Longrightarrow> \<exists>obj. h = COMPLETE obj \<and> body s = (Inr obj, s')"
  by (auto simp: optional_sync_def split: prod.splits sum.splits)

lemma optional_sync_log:
  "snd (optional_sync sync body s) = (if sync then snd (body s) else s)"
  by (auto simp: optional_sync_def split: prod.splits sum.splits)

lemma create_returns:
  assumes "create cls env api_client display_name metadata_schema_uri gcs_source bq_source
             import_schema_uri data_item_labels project location credentials request_metadata
             sync s = (Inr h, s')"
  shows "\<exists>datasource.
           utils_validate_display_name env display_name = Inr ()
         \<and> datasources_create_datasource env metadata_schema_uri import_schema_uri gcs_source
               bq_source data_item_labels = Inr datasource
         \<and> u_create_and_import cls api_client
             (global_config_common_location_path env project location)
             display_name metadata_schema_uri datasource
             (py_or project (global_config_project env))
             (py_or location (global_config_location env))
             (option_or credentials (global_config_credentials env))
             request_metadata sync s = (Inr h, s')"
  using assms by (auto simp: create_def split: sum.splits)

lemmas controller_defs =
  create_def u_create_and_import_def optional_sync_def u_create_and_import_body_def
  u_create_def u_import_def result_def Dataset_init_def u_get_gca_resource_def
  u_validate_metadata_schema_uri_def metadata_schema_uri_of_def resource_name_def
  isinstance_DatasourceImportable_def create_datasource_def contradictory_def
  validate_display_name_def py_or_def option_or_def

lemmas example_controller_defs =
  example_env_def example_client_def Dataset_class_def example_dataset_def

subsection \<open>Construction from an existing resource\<close>

text \<open>
  C5. Constructing a handle from an existing resource name, once the resource has been
  fetched: if the supported-schema set the class declares is non-empty and the schema
  URI of the fetched resource is not a member, construction fails with the
  \<^verbatim>\<open>ValueError\<close> of the type mismatch; if the set is unset or empty, or the schema
  URI is a member, construction succeeds and yields the handle of the fetched resource.
\<close>

theorem schema_check_on_construction:
  assumes "client_get_dataset api_client dataset_name = Inr fetched"
  shows "((\<exists>uris. supported_metadata_schema_uris cls = Some uris \<and> uris \<noteq> []
             \<and> gca_metadata_schema_uri fetched \<notin> set uris) \<longrightarrow>
          Dataset_init cls api_client dataset_name project location credentials s
          = (Inl (ValueError
               (class_name cls @ '' class can not be used to retrieve dataset resource ''
                @ gca_name fetched @ '', check the dataset type'')),
             s @ [GetDatasetRequest dataset_name]))
       \<and> ((supported_metadata_schema_uris cls = None
            \<or> supported_metadata_schema_uris cls = Some []
            \<or> (\<exists>uris. supported_metadata_schema_uris cls = Some uris
                  \<and> gca_metadata_schema_uri fetched \<in> set uris)) \<longrightarrow>
          Dataset_init cls api_client dataset_name project location credentials s
          = (Inr \<lparr>gca_resource = fetched, dataset_project = project,
                   dataset_location = location, dataset_credentials = credentials\<rparr>,
             s @ [GetDatasetRequest dataset_name]))"
  using assms by (auto simp: init_defs)

theorem schema_check_on_construction_witness:
  "Dataset_init TextDataset_class example_client
       ''projects/my-project/locations/us-central1/datasets/7'' None None None []
     = (Inl (ValueError
          (''TextDataset class can not be used to retrieve dataset resource ''
           @ ''projects/my-project/locations/us-central1/datasets/7, check the dataset type'')),
        [GetDatasetRequest ''projects/my-project/locations/us-central1/datasets/7''])
   \<and> Dataset_init ImageDataset_class example_client
       ''projects/my-project/locations/us-central1/datasets/7'' None None None []
     = (Inr \<lparr>gca_resource =
               \<lparr>gca_name = ''projects/my-project/locations/us-central1/datasets/7'',
                gca_display_name = ''flowers'', gca_metadata_schema_uri = image_schema,
                gca_metadata = []\<rparr>,
             dataset_project = None, dataset_location = None, dataset_credentials = None\<rparr>,
        [GetDatasetRequest ''projects/my-project/locations/us-central1/datasets/7''])"
proof -
  have fetched: "client_get_dataset example_client
        ''projects/my-project/locations/us-central1/datasets/7''
      = Inr \<lparr>gca_name = ''projects/my-project/locations/us-central1/datasets/7'',
              gca_display_name = ''flowers'', gca_metadata_schema_uri = image_schema,
              gca_metadata = []\<rparr>"
    by (simp add: example_client_def)
  have outside: "\<exists>uris. supported_metadata_schema_uris TextDataset_class = Some uris \<and> uris \<noteq> []
      \<and> gca_metadata_schema_uri
           \<lparr>gca_name = ''projects/my-project/locations/us-central1/datasets/7'',
            gca_display_name = ''flowers'', gca_metadata_schema_uri = image_schema,
            gca_metadata = []\<rparr> \<notin> set uris"
    by (simp add: TextDataset_class_def image_schema_def text_schema_def)
  have inside: "\<exists>uris. supported_metadata_schema_uris ImageDataset_class = Some uris
      \<and> gca_metadata_schema_uri
           \<lparr>gca_name = ''projects/my-project/locations/us-central1/datasets/7'',
            gca_display_name = ''flowers'', gca_metadata_schema_uri = image_schema,
            gca_metadata = []\<rparr> \<in> set uris"
    by (simp add: ImageDataset_class_def)
  from schema_check_on_construction[OF fetched, of TextDataset_class None None None "[]"] outside
  have 1: "Dataset_init TextDataset_class example_client
       ''projects/my-project/locations/us-central1/datasets/7'' None None None []
     = (Inl (ValueError
          (class_name TextDataset_class @ '' class can not be used to retrieve dataset resource ''
           @ gca_name \<lparr>gca_name = ''projects/my-project/locations/us-central1/datasets/7'',
            gca_display_name = ''flowers'', gca_metadata_schema_uri = image_schema,
            gca_metadata = []\<rparr> @ '', check the dataset type'')),
        [] @ [GetDatasetRequest ''projects/my-project/locations/us-central1/datasets/7''])"
    by blast
  from schema_check_on_construction[OF fetched, of ImageDataset_class None None None "[]"] inside
  have 2: "Dataset_init ImageDataset_class example_client
       ''projects/my-project/locations/us-central1/datasets/7'' None None None []
     = (Inr \<lparr>gca_resource =
               \<lparr>gca_name = ''projects/my-project/locations/us-central1/datasets/7'',
                gca_display_name = ''flowers'', gca_metadata_schema_uri = image_schema,
                gca_metadata = []\<rparr>,
             dataset_project = None, dataset_location = None, dataset_credentials = None\<rparr>,
        [] @ [GetDatasetRequest ''projects/my-project/locations/us-central1/datasets/7''])"
    by blast
  from 1 2 show ?thesis by (simp add: TextDataset_class_def)
qed

subsection \<open>Synchronous creation\<close>

text \<open>
  C1. When \<open>create\<close> with \<open>sync = True\<close> returns, the create request has been issued
  and its operation has completed with the created dataset, the handle has been fetched
  under the created name, and, exactly when the built datasource is import-capable, an
  import request against the resource of that handle has been issued after it and its
  operation has completed too; nothing else was sent. For a datasource that is not
  import-capable no import request is issued, whatever the outcome of the call.
\<close>

theorem create_sync_completes_operations:
  "(create cls env api_client display_name metadata_schema_uri gcs_source bq_source
      import_schema_uri data_item_labels project location credentials request_metadata
      True s = (Inr h, s') \<longrightarrow>
    (\<exists>datasource created dataset_obj.
        datasources_create_datasource env metadata_schema_uri import_schema_uri gcs_source
          bq_source data_item_labels = Inr datasource
      \<and> h = COMPLETE dataset_obj
      \<and> client_create_dataset api_client
           (global_config_common_location_path env project location)
           \<lparr>gca_name = [], gca_display_name = display_name,
            gca_metadata_schema_uri = metadata_schema_uri,
            gca_metadata = dataset_metadata datasource\<rparr> request_metadata
         = Inr (Inr created)
      \<and> client_get_dataset api_client (gca_name created) = Inr (gca_resource dataset_obj)
      \<and> (isinstance_DatasourceImportable datasource \<longrightarrow>
           client_import_data api_client (resource_name dataset_obj)
             [import_data_config datasource] = Inr (Inr ()))
      \<and> s' = s @ [CreateDatasetRequest
                     (global_config_common_location_path env project location)
                     \<lparr>gca_name = [], gca_display_name = display_name,
                      gca_metadata_schema_uri = metadata_schema_uri,
                      gca_metadata = dataset_metadata datasource\<rparr> request_metadata,
                   OperationCompleted CreateOperation,
                   GetDatasetRequest (gca_name created)]
                @ (if isinstance_DatasourceImportable datasource
                   then [ImportDataRequest (resource_name dataset_obj)
                           [import_data_config datasource],
                         OperationCompleted ImportOperation]
                   else [])))
   \<and> (datasources_create_datasource env metadata_schema_uri import_schema_uri gcs_source
         bq_source data_item_labels = Inr datasource
       \<and> \<not> isinstance_DatasourceImportable datasource \<longrightarrow>
      (\<exists>new. snd (create cls env api_client display_name metadata_schema_uri gcs_source
                    bq_source import_schema_uri data_item_labels project location credentials
                    request_metadata sync s) = s @ new
           \<and> (\<forall>n configs. ImportDataRequest n configs \<notin> set new)))"
proof (intro conjI impI)
  assume "create cls env api_client display_name metadata_schema_uri gcs_source bq_source
      import_schema_uri data_item_labels project location credentials request_metadata
      True s = (Inr h, s')"
  from create_returns[OF this] obtain datasource where
    d: "datasources_create_datasource env metadata_schema_uri import_schema_uri gcs_source
          bq_source data_item_labels = Inr datasource"
    and c: "u_create_and_import cls api_client
             (global_config_common_location_path env project location)
             display_name metadata_schema_uri datasource
             (py_or project (global_config_project env))
             (py_or location (global_config_location env))
             (option_or credentials (global_config_credentials env))
             request_metadata True s = (Inr h, s')"
    by blast
  from c obtain dataset_obj where
    h: "h = COMPLETE dataset_obj"
    and b: "u_create_and_import_body cls api_client
             (global_config_common_location_path env project location)
             display_name metadata_schema_uri datasource
             (py_or project (global_config_project env))
             (py_or location (global_config_location env))
             (option_or credentials (global_config_credentials env))
             request_metadata s = (Inr dataset_obj, s')"
    unfolding u_create_and_import_def by (blast dest: optional_sync_True_returns)
  from body_returns[OF b] d h
  show "\<exists>datasource created dataset_obj.
        datasources_create_datasource env metadata_schema_uri import_schema_uri gcs_source
          bq_source data_item_labels = Inr datasource
      \<and> h = COMPLETE dataset_obj
      \<and> client_create_dataset api_client
           (global_config_common_location_path env project location)
           \<lparr>gca_name = [], gca_display_name = display_name,
            gca_metadata_schema_uri = metadata_schema_uri,
            gca_metadata = dataset_metadata datasource\<rparr> request_metadata
         = Inr (Inr created)
      \<and> client_get_dataset api_client (gca_name created) = Inr (gca_resource dataset_obj)
      \<and> (isinstance_DatasourceImportable datasource \<longrightarrow>
           client_import_data api_client (resource_name dataset_obj)
             [import_data_config datasource] = Inr (Inr ()))
      \<and> s' = s @ [CreateDatasetRequest
                     (global_config_common_location_path env project location)
                     \<lparr>gca_name = [], gca_display_name = display_name,
                      gca_metadata_schema_uri = metadata_schema_uri,
                      gca_metadata = dataset_metadata datasource\<rparr> request_metadata,
                   OperationCompleted CreateOperation,
                   GetDatasetRequest (gca_name created)]
                @ (if isinstance_DatasourceImportable datasource
                   then [ImportDataRequest (resource_name dataset_obj)
                           [import_data_config datasource],
                         OperationCompleted ImportOperation]
                   else [])"
    by blast
next
  assume a: "datasources_create_datasource env metadata_schema_uri import_schema_uri gcs_source
         bq_source data_item_labels = Inr datasource
       \<and> \<not> isinstance_DatasourceImportable datasource"
  show "\<exists>new. snd (create cls env api_client display_name metadata_schema_uri gcs_source
                    bq_source import_schema_uri data_item_labels project location credentials
                    request_metadata sync s) = s @ new
           \<and> (\<forall>n configs. ImportDataRequest n configs \<notin> set new)"
  proof (cases "utils_validate_display_name env display_name")
    case (Inl e)
    then have "snd (create cls env api_client display_name metadata_schema_uri gcs_source
                    bq_source import_schema_uri data_item_labels project location credentials
                    request_metadata sync s) = s @ []"
      by (simp add: create_def)
    then show ?thesis by (metis empty_iff empty_set)
  next
    case (Inr u)
    show ?thesis
    proof (cases sync)
      case True
      with Inr a body_without_import[of datasource cls api_client
          "global_config_common_location_path env project location" display_name
          metadata_schema_uri "py_or project (global_config_project env)"
          "py_or location (global_config_location env)"
          "option_or credentials (global_config_credentials env)" request_metadata s]
      show ?thesis
        by (simp add: create_def u_create_and_import_def optional_sync_log)
    next
      case False
      with Inr a have "snd (create cls env api_client display_name metadata_schema_uri
                    gcs_source bq_source import_schema_uri data_item_labels project location
                    credentials request_metadata sync s) = s @ []"
        by (simp add: create_def u_create_and_import_def optional_sync_log)
      then show ?thesis by (metis empty_iff empty_set)
    qed
  qed
qed

theorem create_sync_completes_operations_witness:
  "create Dataset_class example_env example_client ''flowers'' image_schema
       (Some [''gs://my-bucket/flowers.csv'']) None (Some ''gs://schema/import.yaml'') None
       None None None [] True []
     = (Inr (COMPLETE example_dataset),
        [CreateDatasetRequest ''projects/my-project/locations/us-central1''
           \<lparr>gca_name = [], gca_display_name = ''flowers'',
            gca_metadata_schema_uri = image_schema, gca_metadata = []\<rparr> [],
         OperationCompleted CreateOperation,
         GetDatasetRequest ''projects/my-project/locations/us-central1/datasets/1'',
         ImportDataRequest ''projects/my-project/locations/us-central1/datasets/1''
           [''gs://my-bucket/flowers.csv''],
         OperationCompleted ImportOperation])
   \<and> (\<exists>datasource. datasources_create_datasource example_env image_schema
          (Some ''gs://schema/import.yaml'') (Some [''gs://my-bucket/flowers.csv'']) None None
          = Inr datasource)
   \<and> datasources_create_datasource example_env image_schema None None None None
       = Inr (Datasource [])
   \<and> \<not> isinstance_DatasourceImportable (Datasource [])
   \<and> (\<exists>new. snd (create Dataset_class example_env example_client ''flowers'' image_schema
                    None None None None None None None [] True []) = [] @ new
           \<and> (\<forall>n configs. ImportDataRequest n configs \<notin> set new))"
proof -
  have 1: "create Dataset_class example_env example_client ''flowers'' image_schema
       (Some [''gs://my-bucket/flowers.csv'']) None (Some ''gs://schema/import.yaml'') None
       None None None [] True []
     = (Inr (COMPLETE example_dataset),
        [CreateDatasetRequest ''projects/my-project/locations/us-central1''
           \<lparr>gca_name = [], gca_display_name = ''flowers'',
            gca_metadata_schema_uri = image_schema, gca_metadata = []\<rparr> [],
         OperationCompleted CreateOperation,
         GetDatasetRequest ''projects/my-project/locations/us-central1/datasets/1'',
         ImportDataRequest ''projects/my-project/locations/us-central1/datasets/1''
           [''gs://my-bucket/flowers.csv''],
         OperationCompleted ImportOperation])"
    by (simp add: controller_defs example_controller_defs)
  have 2: "datasources_create_datasource example_env image_schema None None None None
       = Inr (Datasource [])"
    by (simp add: example_env_def create_datasource_def contradictory_def)
  have 3: "\<not> isinstance_DatasourceImportable (Datasource [])"
    by (simp add: isinstance_DatasourceImportable_def)
  from create_sync_completes_operations[of Dataset_class example_env example_client "''flowers''" image_schema
      "Some [''gs://my-bucket/flowers.csv'']" None "Some ''gs://schema/import.yaml''" None
      None None None "[]" "[]"] 1
  have 4: "\<exists>datasource. datasources_create_datasource example_env image_schema
          (Some ''gs://schema/import.yaml'') (Some [''gs://my-bucket/flowers.csv'']) None None
          = Inr datasource"
    by blast
  from create_sync_completes_operations[of Dataset_class example_env example_client
      "''flowers''" image_schema None None None None None None None "[]" "[]" _ _ "Datasource []" True] 2 3
  have 5: "\<exists>new. snd (create Dataset_class example_env example_client ''flowers'' image_schema
                    None None None None None None None [] True []) = [] @ new
           \<and> (\<forall>n configs. ImportDataRequest n configs \<notin> set new)"
    by blast
  from 1 2 3 4 5 show ?thesis by blast
qed

subsection \<open>Contradictory or incomplete sources\<close>

text \<open>
  C4, as the code has it. With the helpers as the spec describes them, every call to
  \<open>create\<close> whose source fields are contradictory (a Cloud Storage source and a
  BigQuery source both set) or lack a required URI fails with a \<^verbatim>\<open>ValueError\<close> and
  leaves the log of the gateway as it was: no create, fetch or import request is sent.
  When the display name passes the validation that runs first, the error is the one
  datasource construction raises; when it does not, the error is the one of the display
  name and datasource construction is not reached.
\<close>

theorem contradictory_sources_fail_before_any_request:
  assumes "utils_validate_display_name env = validate_display_name"
    and "datasources_create_datasource env = create_datasource required_uri_missing build"
    and "contradictory gcs_source bq_source
         \<or> required_uri_missing metadata_schema_uri import_schema_uri gcs_source bq_source"
  shows "(validate_display_name display_name = Inr () \<longrightarrow>
            (\<exists>m. create_datasource required_uri_missing build metadata_schema_uri
                    import_schema_uri gcs_source bq_source data_item_labels
                  = Inl (ValueError m)
                \<and> create cls env api_client display_name metadata_schema_uri gcs_source
                    bq_source import_schema_uri data_item_labels project location credentials
                    request_metadata sync s = (Inl (ValueError m), s)))
       \<and> (\<forall>e. validate_display_name display_name = Inl e \<longrightarrow>
            (\<exists>m. e = ValueError m)
            \<and> create cls env api_client display_name metadata_schema_uri gcs_source
                bq_source import_schema_uri data_item_labels project location credentials
                request_metadata sync s = (Inl e, s))"
  using assms
  by (auto simp: create_def create_datasource_def validate_display_name_def
        split: if_splits)

theorem contradictory_sources_fail_before_any_request_witness:
  "contradictory (Some [''gs://my-bucket/flowers.csv'']) (Some ''bq://project.dataset.table'')
   \<and> validate_display_name ''flowers'' = Inr ()
   \<and> create Dataset_class example_env example_client ''flowers'' image_schema
       (Some [''gs://my-bucket/flowers.csv'']) (Some ''bq://project.dataset.table'') None None
       None None None [] True []
     = (Inl (ValueError ''Only one of gcs_source or bq_source can be set.''), [])
   \<and> validate_display_name []
     = Inl (ValueError ''Display name must be non-empty and at most 128 characters long.'')
   \<and> create Dataset_class example_env example_client [] image_schema
       (Some [''gs://my-bucket/flowers.csv'']) (Some ''bq://project.dataset.table'') None None
       None None None [] True []
     = (Inl (ValueError ''Display name must be non-empty and at most 128 characters long.''),
        [])"
proof -
  have 1: "utils_validate_display_name example_env = validate_display_name"
    by (simp add: example_env_def)
  have 2: "datasources_create_datasource example_env
      = create_datasource (\<lambda>md imp gcs bq. False)
          (\<lambda>md imp gcs bq labels.
             case gcs of None \<Rightarrow> Datasource [] | Some uris \<Rightarrow> DatasourceImportable [] (concat uris))"
    by (simp add: example_env_def)
  have 3: "contradictory (Some [''gs://my-bucket/flowers.csv''])
             (Some ''bq://project.dataset.table'')"
    by (simp add: contradictory_def)
  have 4: "validate_display_name ''flowers'' = Inr ()"
    by (simp add: validate_display_name_def)
  have 5: "validate_display_name []
     = Inl (ValueError ''Display name must be non-empty and at most 128 characters long.'')"
    by (simp add: validate_display_name_def)
  from contradictory_sources_fail_before_any_request[OF 1 2 disjI1[OF 3],
      where display_name = "''flowers''" and metadata_schema_uri = image_schema
        and import_schema_uri = None and data_item_labels = None and cls = Dataset_class
        and api_client = example_client and project = None and location = None
        and credentials = None and request_metadata = "[]" and sync = True and s = "[]"] 4
  obtain m where
    b: "create_datasource (\<lambda>md imp gcs bq. False)
          (\<lambda>md imp gcs bq labels.
             case gcs of None \<Rightarrow> Datasource [] | Some uris \<Rightarrow> DatasourceImportable [] (concat uris))
          image_schema None (Some [''gs://my-bucket/flowers.csv''])
          (Some ''bq://project.dataset.table'') None = Inl (ValueError m)"
    and a: "create Dataset_class example_env example_client ''flowers'' image_schema
       (Some [''gs://my-bucket/flowers.csv'']) (Some ''bq://project.dataset.table'') None None
       None None None [] True [] = (Inl (ValueError m), [])"
    by blast
  from b have "m = ''Only one of gcs_source or bq_source can be set.''"
    by (simp add: create_datasource_def contradictory_def)
  with a have 6: "create Dataset_class example_env example_client ''flowers'' image_schema
       (Some [''gs://my-bucket/flowers.csv'']) (Some ''bq://project.dataset.table'') None None
       None None None [] True []
     = (Inl (ValueError ''Only one of gcs_source or bq_source can be set.''), [])"
    by simp
  from contradictory_sources_fail_before_any_request[OF 1 2 disjI1[OF 3],
      where display_name = "[]" and metadata_schema_uri = image_schema
        and import_schema_uri = None and data_item_labels = None and cls = Dataset_class
        and api_client = example_client and project = None and location = None
        and credentials = None and request_metadata = "[]" and sync = True and s = "[]"] 5
  have 7: "create Dataset_class example_env example_client [] image_schema
       (Some [''gs://my-bucket/flowers.csv'']) (Some ''bq://project.dataset.table'') None None
       None None None [] True []
     = (Inl (ValueError ''Display name must be non-empty and at most 128 characters long.''),
        [])"
    by blast
  from 3 4 5 6 7 show ?thesis by blast
qed

text \<open>
  The display name is validated first (source line 179). With a name of 129 characters
  and both sources set the call fails with the error of the display name; datasource
  construction, which would raise another, is not reached.
\<close>

theorem datasource_error_counterexample:
  "contradictory (Some [''gs://my-bucket/flowers.csv'']) (Some ''bq://project.dataset.table'')
   \<and> datasources_create_datasource example_env image_schema None
       (Some [''gs://my-bucket/flowers.csv'']) (Some ''bq://project.dataset.table'') None
     = Inl (ValueError ''Only one of gcs_source or bq_source can be set.'')
   \<and> create Dataset_class example_env example_client (replicate 129 (CHR ''a'')) image_schema
       (Some [''gs://my-bucket/flowers.csv'']) (Some ''bq://project.dataset.table'') None None
       None None None [] True []
     = (Inl (ValueError ''Display name must be non-empty and at most 128 characters long.''),
        [])"
  by (simp add: create_def example_env_def validate_display_name_def create_datasource_def
        contradictory_def)

subsection \<open>Export\<close>

text \<open>
  C2, as the code has it. For every output directory, \<open>export_data\<close> on a resolved
  handle issues the export request, and the request carries the directory exactly as it
  was given. The method neither validates nor normalises it: it raises no error of its
  own, and its outcome is the answer of the gateway, an error of the request or of the
  operation, or the exported files. The only events it adds are the request and, when
  the request was accepted, the completion of its operation.
\<close>

theorem export_request_carries_output_dir:
  "export_data api_client (COMPLETE obj) output_dir s =
     (case client_export_data api_client (resource_name obj)
             \<lparr>gcs_destination = \<lparr>output_uri_prefix = output_dir\<rparr>\<rparr> of
        Inl e \<Rightarrow>
          (Inl e, COMPLETE obj,
           s @ [ExportDataRequest (resource_name obj)
                  \<lparr>gcs_destination = \<lparr>output_uri_prefix = output_dir\<rparr>\<rparr>])
      | Inr (Inl e) \<Rightarrow>
          (Inl e, COMPLETE obj,
           s @ [ExportDataRequest (resource_name obj)
                  \<lparr>gcs_destination = \<lparr>output_uri_prefix = output_dir\<rparr>\<rparr>,
                OperationCompleted ExportOperation])
      | Inr (Inr response) \<Rightarrow>
          (Inr (exported_files response), COMPLETE obj,
           s @ [ExportDataRequest (resource_name obj)
                  \<lparr>gcs_destination = \<lparr>output_uri_prefix = output_dir\<rparr>\<rparr>,
                OperationCompleted ExportOperation]))"
  by (simp add: export_data_def wait_def result_def Let_def split: sum.splits)

text \<open>
  A storage URI without a trailing separator is sent without one, and a string that is
  no storage URI is sent all the same and raises nothing.
\<close>

theorem export_validation_counterexample:
  "export_data example_client (COMPLETE example_dataset) ''gs://my-bucket/exports'' []
     = (Inr [''gs://my-bucket/exportsexport/data.jsonl''], COMPLETE example_dataset,
        [ExportDataRequest ''projects/my-project/locations/us-central1/datasets/1''
           \<lparr>gcs_destination = \<lparr>output_uri_prefix = ''gs://my-bucket/exports''\<rparr>\<rparr>,
         OperationCompleted ExportOperation])
   \<and> export_data example_client (COMPLETE example_dataset) ''not a uri'' []
     = (Inr [''not a uriexport/data.jsonl''], COMPLETE example_dataset,
        [ExportDataRequest ''projects/my-project/locations/us-central1/datasets/1''
           \<lparr>gcs_destination = \<lparr>output_uri_prefix = ''not a uri''\<rparr>\<rparr>,
         OperationCompleted ExportOperation])"
  by (simp add: export_data_def wait_def result_def example_client_def example_dataset_def
        resource_name_def)

text \<open>
  C8. \<open>export_data\<close> on a pending handle first waits: the background body runs to its
  end. When the body fails, its error is raised, the handle is \<open>FAILED\<close> and the log is
  the one the body left, with no export request. When the body yields the object, the
  handle is \<open>COMPLETE\<close> and the export request follows everything the body sent. The
  request is never issued while the handle is pending.
\<close>

theorem export_waits_for_pending_handle:
  "(body s = (Inl e, s1) \<longrightarrow>
      export_data api_client (PENDING body) output_dir s = (Inl e, FAILED e, s1))
   \<and> (body s = (Inr obj, s1) \<longrightarrow>
      (\<exists>r rest. export_data api_client (PENDING body) output_dir s
         = (r, COMPLETE obj,
            s1 @ ExportDataRequest (resource_name obj)
                   \<lparr>gcs_destination = \<lparr>output_uri_prefix = output_dir\<rparr>\<rparr> # rest)
       \<and> (rest = [] \<or> rest = [OperationCompleted ExportOperation])))"
proof (intro conjI impI)
  assume "body s = (Inl e, s1)"
  then show "export_data api_client (PENDING body) output_dir s = (Inl e, FAILED e, s1)"
    by (simp add: export_wait_failed wait_PENDING_failed)
next
  assume "body s = (Inr obj, s1)"
  then have "wait (PENDING body) s = (Inr obj, COMPLETE obj, s1)"
    by (rule wait_PENDING_complete)
  then show "\<exists>r rest. export_data api_client (PENDING body) output_dir s
         = (r, COMPLETE obj,
            s1 @ ExportDataRequest (resource_name obj)
                   \<lparr>gcs_destination = \<lparr>output_uri_prefix = output_dir\<rparr>\<rparr> # rest)
       \<and> (rest = [] \<or> rest = [OperationCompleted ExportOperation])"
    by (rule export_after_wait)
qed

theorem export_waits_for_pending_handle_witness:
  "create Dataset_class example_env example_client ''flowers'' image_schema None None None None
       None None None [] False []
     = (Inr (PENDING pending_body), [])
   \<and> pending_body []
     = (Inr example_dataset,
        [CreateDatasetRequest ''projects/my-project/locations/us-central1''
           \<lparr>gca_name = [], gca_display_name = ''flowers'',
            gca_metadata_schema_uri = image_schema, gca_metadata = []\<rparr> [],
         OperationCompleted CreateOperation,
         GetDatasetRequest ''projects/my-project/locations/us-central1/datasets/1''])
   \<and> (\<exists>r rest. export_data example_client (PENDING pending_body) ''gs://my-bucket/exports/'' []
         = (r, COMPLETE example_dataset,
            [CreateDatasetRequest ''projects/my-project/locations/us-central1''
               \<lparr>gca_name = [], gca_display_name = ''flowers'',
                gca_metadata_schema_uri = image_schema, gca_metadata = []\<rparr> [],
             OperationCompleted CreateOperation,
             GetDatasetRequest ''projects/my-project/locations/us-central1/datasets/1'']
            @ ExportDataRequest (resource_name example_dataset)
                \<lparr>gcs_destination = \<lparr>output_uri_prefix = ''gs://my-bucket/exports/''\<rparr>\<rparr> # rest)
       \<and> (rest = [] \<or> rest = [OperationCompleted ExportOperation]))"
proof -
  have 1: "create Dataset_class example_env example_client ''flowers'' image_schema None None
       None None None None None [] False []
     = (Inr (PENDING pending_body), [])"
    by (simp add: create_def u_create_and_import_def optional_sync_def pending_body_def
          create_datasource_def contradictory_def validate_display_name_def py_or_def
          option_or_def example_env_def)
  have 2: "pending_body []
     = (Inr example_dataset,
        [CreateDatasetRequest ''projects/my-project/locations/us-central1''
           \<lparr>gca_name = [], gca_display_name = ''flowers'',
            gca_metadata_schema_uri = image_schema, gca_metadata = []\<rparr> [],
         OperationCompleted CreateOperation,
         GetDatasetRequest ''projects/my-project/locations/us-central1/datasets/1''])"
    by (simp add: pending_body_def controller_defs example_controller_defs)
  from export_waits_for_pending_handle[of pending_body "[]" _ _ example_client
      "''gs://my-bucket/exports/''" example_dataset] 1 2
  show ?thesis by blast
qed

section \<open>Properties of the tabular serializer\<close>

lemma cleanup_removes:
  "map_of (local_files (cleanup tmpdirname w)) (tmpdirname @ CHR ''/'' # x) = None"
  by (auto simp: cleanup_def map_of_eq_None_iff)

lemma cleanup_blobs: "blobs (cleanup tmpdirname w) = blobs w"
  by (simp add: cleanup_def)

text \<open>
  C9. The module binds neither \<^verbatim>\<open>pathlib\<close> nor \<^verbatim>\<open>storage\<close>. Every invocation of
  the serializer in the module as written raises \<^verbatim>\<open>NameError\<close> for \<^verbatim>\<open>pathlib\<close>
  inside the temporary-directory context and uploads nothing. Whatever names the module
  namespace were to bind, no invocation returns a path and none uploads a blob: the CSV
  file is written inside the context, the context is left before the upload statement
  runs, and the upload then finds no file.
\<close>

theorem serializer_never_stages:
  "''pathlib'' \<notin> set module_globals \<and> ''storage'' \<notin> set module_globals
   \<and> serialize_dataframe module_globals extract tmpdirname artifact_uri obj dataset_type w
     = (Inl (NameError ''pathlib''), cleanup tmpdirname w)
   \<and> blobs (cleanup tmpdirname w) = blobs w
   \<and> (\<forall>globals.
        (\<forall>gcs_path. fst (serialize_dataframe globals extract tmpdirname artifact_uri obj
                           dataset_type w) \<noteq> Inr gcs_path)
        \<and> blobs (snd (serialize_dataframe globals extract tmpdirname artifact_uri obj
                         dataset_type w)) = blobs w)"
proof (intro conjI allI)
  show "''pathlib'' \<notin> set module_globals" by (simp add: module_globals_def)
  show "''storage'' \<notin> set module_globals" by (simp add: module_globals_def)
  show "serialize_dataframe module_globals extract tmpdirname artifact_uri obj dataset_type w
     = (Inl (NameError ''pathlib''), cleanup tmpdirname w)"
    by (simp add: serialize_dataframe_def load_global_def module_globals_def)
  show "blobs (cleanup tmpdirname w) = blobs w" by (rule cleanup_blobs)
next
  fix globals gcs_path
  show "fst (serialize_dataframe globals extract tmpdirname artifact_uri obj dataset_type w)
        \<noteq> Inr gcs_path"
    by (auto simp: serialize_dataframe_def load_global_def Let_def upload_from_filename_def
          cleanup_removes split: sum.splits prod.splits option.splits)
next
  fix globals
  show "blobs (snd (serialize_dataframe globals extract tmpdirname artifact_uri obj
                         dataset_type w)) = blobs w"
    by (auto simp: serialize_dataframe_def load_global_def Let_def upload_from_filename_def
          cleanup_removes cleanup_blobs to_csv_def split: sum.splits prod.splits option.splits)
qed

end
